theory Spec2Isabelle
  imports Complex_Main "HOL-Library.AList" "HOL-Library.Sublist"
begin

section \<open>Python strings\<close>

text \<open>
  Source strings are Python \<open>str\<close> values. They are modelled as \<open>string\<close>, a list of
  characters, where a character is a code point below 256 (ASCII and Latin-1). The
  functions of this section follow \<open>str.lower\<close>, \<open>str.upper\<close>, \<open>str.isspace\<close> and the
  word class of the \<open>re\<close> module on these code points.
\<close>

text \<open>
  \<open>str.lower\<close> acts character by character: \<open>A\<close> to \<open>Z\<close> and the Latin-1 capitals
  (192 to 214, 216 to 222) move up by 32, every other character is unchanged.
\<close>

definition lower_char :: "char \<Rightarrow> char" where
  "lower_char c =
     (let n = (of_char c :: nat)
      in if (65 \<le> n \<and> n \<le> 90) \<or> (192 \<le> n \<and> n \<le> 214) \<or> (216 \<le> n \<and> n \<le> 222)
         then char_of (n + 32) else c)"

definition lower :: "string \<Rightarrow> string" where
  "lower s = map lower_char s"

text \<open>
  \<open>str.upper\<close> maps each character to its upper-case form, which may be longer than one
  character: \<open>a\<close> to \<open>z\<close> and the Latin-1 small letters (224 to 246, 248 to 254) move
  down by 32, and the sharp s (223) becomes \<open>SS\<close>. The upper-case forms of the micro
  sign (181) and of y with diaeresis (255) are the code points 924 and 376, above the
  range of \<open>char\<close>; they stand for themselves here. Like their upper-case forms they
  are word characters that are not ASCII, so no literal of the source matches them.
\<close>

definition upper_chars :: "char \<Rightarrow> string" where
  "upper_chars c =
     (let n = (of_char c :: nat)
      in if (97 \<le> n \<and> n \<le> 122) \<or> (224 \<le> n \<and> n \<le> 246) \<or> (248 \<le> n \<and> n \<le> 254)
         then [char_of (n - 32)]
         else if n = 223 then ''SS'' else [c])"

definition upper :: "string \<Rightarrow> string" where
  "upper s = concat (map upper_chars s)"

text \<open>
  \<open>str.isspace\<close>: tab, line feed, VT, FF, CR, the separators 28 to 31, space, next line
  (133) and the no-break space (160).
\<close>

definition is_space :: "char \<Rightarrow> bool" where
  "is_space c =
     (let n = (of_char c :: nat)
      in (9 \<le> n \<and> n \<le> 13) \<or> (28 \<le> n \<and> n \<le> 32) \<or> n = 133 \<or> n = 160)"

text \<open>
  The regular-expression class \<open>\w\<close> of a \<open>str\<close> pattern: the alphanumeric characters
  and the underscore. Below 256 these are the digits, the ASCII letters, the
  underscore, the ordinal indicators (170, 186), the superscript digits (178, 179,
  185), the micro sign (181), the fractions (188 to 190) and the Latin-1 letters
  (192 to 255 without the signs 215 and 247).
\<close>

definition is_word :: "char \<Rightarrow> bool" where
  "is_word c =
     (let n = (of_char c :: nat)
      in (48 \<le> n \<and> n \<le> 57) \<or> (65 \<le> n \<and> n \<le> 90) \<or> n = 95 \<or> (97 \<le> n \<and> n \<le> 122)
         \<or> n = 170 \<or> n = 178 \<or> n = 179 \<or> n = 181 \<or> n = 185 \<or> n = 186
         \<or> (188 \<le> n \<and> n \<le> 190) \<or> (192 \<le> n \<and> n \<le> 214) \<or> (216 \<le> n \<and> n \<le> 246)
         \<or> 248 \<le> n)"

text \<open>\<open>s.split()\<close>: the maximal runs of non-whitespace characters, in order.\<close>

fun split_acc :: "string \<Rightarrow> string \<Rightarrow> string list" where
  "split_acc cur [] = (if cur = [] then [] else [cur])"
| "split_acc cur (c # cs) =
     (if is_space c then (if cur = [] then split_acc [] cs else cur # split_acc [] cs)
      else split_acc (cur @ [c]) cs)"

definition split :: "string \<Rightarrow> string list" where
  "split s = split_acc [] s"

text \<open>\<open>sep.join(parts)\<close>.\<close>

fun join :: "string \<Rightarrow> string list \<Rightarrow> string" where
  "join sep [] = []"
| "join sep [p] = p"
| "join sep (p # q # ps) = p @ sep @ join sep (q # ps)"

text \<open>\<open>sub in s\<close>: \<open>sub\<close> occurs in \<open>s\<close> as a contiguous substring.\<close>

fun contains :: "string \<Rightarrow> string \<Rightarrow> bool" where
  "contains [] sub = (sub = [])"
| "contains (c # cs) sub = (prefix sub (c # cs) \<or> contains cs sub)"

text \<open>
  \<open>s.count(sub)\<close> for a non-empty \<open>sub\<close>: the number of non-overlapping occurrences,
  scanning from the left. The first argument counts the characters of the last
  occurrence still to be skipped.
\<close>

fun count_from :: "nat \<Rightarrow> string \<Rightarrow> string \<Rightarrow> nat" where
  "count_from skip sub [] = 0"
| "count_from skip sub (c # cs) =
     (if skip = 0 \<and> prefix sub (c # cs) then Suc (count_from (length sub - 1) sub cs)
      else count_from (skip - 1) sub cs)"

definition count :: "string \<Rightarrow> string \<Rightarrow> nat" where
  "count s sub = (if sub = [] then Suc (length s) else count_from 0 sub s)"

text \<open>\<open>any(indicator in s for indicator in indicators)\<close>.\<close>

definition any_in :: "string list \<Rightarrow> string \<Rightarrow> bool" where
  "any_in indicators s = list_ex (\<lambda>indicator. contains s indicator) indicators"

text \<open>\<open>s.startswith(p)\<close>, \<open>s.endswith(p)\<close>.\<close>

definition starts_with :: "string \<Rightarrow> string \<Rightarrow> bool" where
  "starts_with s p = (take (length p) s = p)"

definition ends_with :: "string \<Rightarrow> string \<Rightarrow> bool" where
  "ends_with s p = (length p \<le> length s \<and> drop (length s - length p) s = p)"

text \<open>\<open>s.strip()\<close>: leading and trailing whitespace removed.\<close>

definition strip :: "string \<Rightarrow> string" where
  "strip s = rev (dropWhile is_space (rev (dropWhile is_space s)))"

text \<open>\<open>s.split(sep)\<close> for a one-character separator: always at least one part.\<close>

fun split_on_acc :: "char \<Rightarrow> string \<Rightarrow> string \<Rightarrow> string list" where
  "split_on_acc sep cur [] = [cur]"
| "split_on_acc sep cur (c # cs) =
     (if c = sep then cur # split_on_acc sep [] cs else split_on_acc sep (cur @ [c]) cs)"

definition split_on :: "char \<Rightarrow> string \<Rightarrow> string list" where
  "split_on sep s = split_on_acc sep [] s"

section \<open>Complexity classification\<close>

subsection \<open>SQLAgent._determine_complexity_level (agents/sql_agent.py)\<close>

definition simple_indicators :: "string list" where
  "simple_indicators = [''total'', ''sum'', ''count'', ''average'', ''max'', ''min'']"

definition complex_indicators :: "string list" where
  "complex_indicators =
     [''compare'', ''trend'', ''growth'', ''year over year'', ''correlation'',
      ''top'', ''bottom'', ''rank'', ''percentile'', ''moving average'',
      ''pivot'', ''cross-tab'', ''breakdown by'']"

definition advanced_indicators :: "string list" where
  "advanced_indicators =
     [''cohort'', ''funnel'', ''attribution'', ''statistical'',
      ''regression'', ''forecasting'', ''anomaly'', ''clustering'']"

definition determine_complexity_level :: "string \<Rightarrow> string" where
  "determine_complexity_level question =
     (let question_lower = lower question in
      if any_in advanced_indicators question_lower then ''advanced''
      else if any_in complex_indicators question_lower then ''medium''
      else if any_in simple_indicators question_lower then ''simple''
      else ''medium'')"

subsection \<open>QueryComplexityRouter.assess_complexity (cost_optimization.py)\<close>

definition router_simple_indicators :: "string list" where
  "router_simple_indicators = [''count'', ''total'', ''sum'', ''how many'', ''show me'', ''list all'']"

definition router_complex_indicators :: "string list" where
  "router_complex_indicators =
     [''compare'', ''analyze'', ''trend'', ''correlation'', ''predict'',
      ''percentage'', ''ratio'', ''join'', ''group by'', ''having'']"

text \<open>\<open>sum(1 for indicator in indicators if indicator in s)\<close>.\<close>

definition score :: "string list \<Rightarrow> string \<Rightarrow> nat" where
  "score indicators s = length (filter (\<lambda>indicator. contains s indicator) indicators)"

definition assess_complexity :: "string \<Rightarrow> int \<Rightarrow> string" where
  "assess_complexity question schema_size =
     (let question_lower = lower question;
          simple_score = score router_simple_indicators question_lower;
          complex_score = score router_complex_indicators question_lower;
          word_count = length (split question);
          has_multiple_conditions =
            (count question_lower ''and'' + count question_lower ''or'' > 1)
      in if complex_score > 1 \<or> has_multiple_conditions \<or> word_count > 20 then ''complex''
         else if simple_score > 0 \<and> complex_score = 0 \<and> word_count < 10 then ''simple''
         else ''moderate'')"

subsection \<open>The classification rule as the specification words it\<close>

text \<open>
  The specification's rule, over the keyword sets of \<open>_determine_complexity_level\<close>:
  advanced keywords present give \<open>advanced\<close>; else complex keywords present, or more
  than one conjunction (\<open>and\<close>/\<open>or\<close>), or more than twenty words give
  \<open>complex\<close>/\<open>medium\<close>; else simple keywords present and fewer than ten words give
  \<open>simple\<close>; the default is \<open>medium\<close>. Conjunctions are counted among the
  whitespace-separated words of the lower-cased question.
\<close>

definition specified_complexity :: "string \<Rightarrow> string" where
  "specified_complexity question =
     (let question_lower = lower question;
          words = split question_lower;
          conjunctions = length (filter (\<lambda>w. w = ''and'' \<or> w = ''or'') words)
      in if any_in advanced_indicators question_lower then ''advanced''
         else if any_in complex_indicators question_lower \<or> conjunctions > 1
                 \<or> length words > 20 then ''medium''
         else if any_in simple_indicators question_lower \<and> length words < 10 then ''simple''
         else ''medium'')"

section \<open>Security validation (tools/sql_tools.py, SecurityValidatorTool)\<close>

text \<open>
  \<open>re.search(rf'\b{keyword}\b', s)\<close> for a keyword of literal characters. \<open>\b\<close> holds at
  position \<open>i\<close> when exactly one of the characters before and at \<open>i\<close> is a word
  character; outside the string there is no word character. The search succeeds when
  the pattern matches at some position.
\<close>

definition word_at :: "string \<Rightarrow> nat \<Rightarrow> bool" where
  "word_at s i = (i < length s \<and> is_word (s ! i))"

definition word_boundary :: "string \<Rightarrow> nat \<Rightarrow> bool" where
  "word_boundary s i = ((0 < i \<and> word_at s (i - 1)) \<noteq> word_at s i)"

definition match_word_at :: "string \<Rightarrow> string \<Rightarrow> nat \<Rightarrow> bool" where
  "match_word_at keyword s i =
     (word_boundary s i \<and> take (length keyword) (drop i s) = keyword
      \<and> i + length keyword \<le> length s \<and> word_boundary s (i + length keyword))"

definition search_word :: "string \<Rightarrow> string \<Rightarrow> bool" where
  "search_word keyword s = list_ex (match_word_at keyword s) [0..<Suc (length s)]"

definition dangerous_keywords :: "string list" where
  "dangerous_keywords =
     [''DROP'', ''DELETE'', ''UPDATE'', ''INSERT'', ''TRUNCATE'', ''ALTER'',
      ''CREATE'', ''GRANT'', ''REVOKE'', ''EXEC'', ''EXECUTE'', ''CALL'']"

definition check_dangerous_operations :: "string \<Rightarrow> string list" where
  "check_dangerous_operations sql_query =
     (let sql_upper = upper sql_query
      in filter (\<lambda>keyword. search_word keyword sql_upper) dangerous_keywords)"

text \<open>
  \<open>re.search(p1 + '.*' + p2, s, re.IGNORECASE)\<close> for literal \<open>p1\<close>, \<open>p2\<close>: some
  occurrence of \<open>p1\<close> is followed, after any characters other than a line feed, by an
  occurrence of \<open>p2\<close>. With \<open>re.IGNORECASE\<close> a character of the text matches a
  letter of the pattern when their lower-case forms are equal.
\<close>

fun dot_star_then :: "string \<Rightarrow> string \<Rightarrow> bool" where
  "dot_star_then p [] = (p = [])"
| "dot_star_then p (c # cs) = (prefix p (c # cs) \<or> (c \<noteq> CHR 0x0A \<and> dot_star_then p cs))"

fun search_from :: "string \<Rightarrow> string \<Rightarrow> string \<Rightarrow> bool" where
  "search_from p1 p2 [] = (p1 = [] \<and> p2 = [])"
| "search_from p1 p2 (c # cs) =
     ((prefix p1 (c # cs) \<and> dot_star_then p2 (drop (length p1) (c # cs)))
      \<or> search_from p1 p2 cs)"

definition search_gap_ignorecase :: "string \<Rightarrow> string \<Rightarrow> string \<Rightarrow> bool" where
  "search_gap_ignorecase p1 p2 s = search_from (lower p1) (lower p2) (lower s)"

text \<open>The three patterns, as (text before \<open>.*\<close>, text after \<open>.*\<close>, pattern source).\<close>

definition injection_patterns :: "(string \<times> string \<times> string) list" where
  "injection_patterns =
     [([CHR 0x27, CHR '';''], ''--'', [CHR 0x27] @ '';.*--''),
      (''UNION'', ''SELECT'', ''UNION.*SELECT''),
      (''OR'', ''1=1'', ''OR.*1=1'')]"

definition check_injection_risks :: "string \<Rightarrow> string list" where
  "check_injection_risks sql_query =
     map (\<lambda>(p1, p2, pattern). ''Potential injection pattern detected: '' @ pattern)
       (filter (\<lambda>(p1, p2, pattern). search_gap_ignorecase p1 p2 sql_query) injection_patterns)"

definition system_patterns :: "string list" where
  "system_patterns = [''INFORMATION_SCHEMA'', ''SNOWFLAKE.ACCOUNT_USAGE'', ''SYS.'', ''SYSTEM$'']"

definition check_information_disclosure :: "string \<Rightarrow> string list" where
  "check_information_disclosure sql_query =
     (let sql_upper = upper sql_query
      in map (\<lambda>pattern. ''Query accesses system information: '' @ pattern)
           (filter (\<lambda>pattern. contains sql_upper pattern) system_patterns))"

definition generate_security_recommendations :: "string \<Rightarrow> bool \<Rightarrow> string list" where
  "generate_security_recommendations sql_query strict_mode =
     (if strict_mode
      then [''Query has been validated in strict security mode'',
            ''Only SELECT operations are permitted'',
            ''System table access is monitored'']
      else [])
     @ [''Query will be executed with read-only permissions'',
        ''Results are limited to prevent data exfiltration'']"

record validation_result =
  is_secure :: bool
  security_level :: string
  issues :: "string list"
  warnings :: "string list"
  blocked_operations :: "string list"
  recommendations :: "string list"

text \<open>
  \<open>SecurityValidatorTool.execute\<close> on a query string: the \<open>validation_result\<close> entry
  of the returned dictionary (its \<open>status\<close> is always \<open>success\<close>; the timestamp is
  left out). The call raises only when \<open>sql_query\<close> is \<open>None\<close>, which no caller passes.
\<close>

definition security_validator_execute :: "string \<Rightarrow> bool \<Rightarrow> validation_result" where
  "security_validator_execute sql_query strict_mode =
     (let dangerous_ops = check_dangerous_operations sql_query;
          injection_risks = check_injection_risks sql_query;
          disclosure_risks = check_information_disclosure sql_query
      in \<lparr>is_secure = (dangerous_ops = []),
          security_level =
            (if injection_risks \<noteq> [] then ''medium''
             else if dangerous_ops \<noteq> [] then ''critical'' else ''high''),
          issues = (if dangerous_ops \<noteq> [] then [''Query contains dangerous operations''] else []),
          warnings = injection_risks @ disclosure_risks,
          blocked_operations = dangerous_ops,
          recommendations = generate_security_recommendations sql_query strict_mode\<rparr>)"

section \<open>Schema model (schema/models.py)\<close>

text \<open>
  The dataclasses \<open>Column\<close>, \<open>Relationship\<close> and \<open>Table\<close>, with the fields that
  relationship inference, the catalog and the context rendering read or write. (The
  advisory fields - nullability, defaults, sizes, comments, tags - are not read by any
  of them.) Field names shared by several classes get the class as a prefix.
\<close>

datatype RelationshipType = ONE_TO_ONE | ONE_TO_MANY | MANY_TO_ONE | MANY_TO_MANY

record Column =
  col_name :: string
  data_type :: string
  col_business_name :: "string option"
  col_description :: "string option"
  is_primary_key :: bool
  is_foreign_key :: bool
  semantic_type :: "string option"

record Relationship =
  source_table :: string
  target_table :: string
  source_column :: string
  target_column :: string
  relationship_type :: RelationshipType
  rel_name :: "string option"
  rel_description :: "string option"
  is_enforced :: bool

record Table =
  tbl_name :: string
  tbl_schema :: string
  tbl_database :: string
  tbl_business_name :: "string option"
  tbl_description :: "string option"
  columns :: "Column list"
  relationships :: "Relationship list"

text \<open>The constructors with the dataclass defaults for the fields not given.\<close>

definition new_column :: "string \<Rightarrow> string \<Rightarrow> bool \<Rightarrow> Column" where
  "new_column name dtype pk =
     \<lparr>col_name = name, data_type = dtype, col_business_name = None, col_description = None,
      is_primary_key = pk, is_foreign_key = False, semantic_type = None\<rparr>"

definition new_table :: "string \<Rightarrow> string \<Rightarrow> string \<Rightarrow> Column list \<Rightarrow> Table" where
  "new_table name schema database cols =
     \<lparr>tbl_name = name, tbl_schema = schema, tbl_database = database,
      tbl_business_name = None, tbl_description = None, columns = cols, relationships = []\<rparr>"

section \<open>Relationship inference\<close>

subsection \<open>SchemaDiscovery._infer_relationships (schema/discovery.py)\<close>

text \<open>
  \<open>table_by_name = {table.name: table for table in tables}\<close>: of several tables with
  one name the last one is kept.
\<close>

definition table_by_name :: "Table list \<Rightarrow> string \<Rightarrow> Table option" where
  "table_by_name tables = map_of (rev (map (\<lambda>t. (tbl_name t, t)) tables))"

text \<open>The candidate table names, in the order they are tried; \<open>None\<close> is skipped.\<close>

definition target_variations :: "string \<Rightarrow> string option list" where
  "target_variations potential_target =
     [Some (upper potential_target),
      Some (upper potential_target @ ''S''),
      (if ends_with potential_target ''S'' then Some (butlast (upper potential_target)) else None),
      Some (upper potential_target @ ''_DIM''),
      Some (upper potential_target @ ''_MASTER'')]"

text \<open>
  The loop over the variations: the first one that is a non-empty string and a key of
  \<open>table_by_name\<close> ends the loop (\<open>break\<close>), whether or not a target column is found.
\<close>

fun first_variation ::
  "(string \<Rightarrow> Table option) \<Rightarrow> string option list \<Rightarrow> (string \<times> Table) option" where
  "first_variation tbn [] = None"
| "first_variation tbn (None # vs) = first_variation tbn vs"
| "first_variation tbn (Some variation # vs) =
     (case tbn variation of
        None \<Rightarrow> first_variation tbn vs
      | Some target \<Rightarrow> if variation \<noteq> [] then Some (variation, target)
                       else first_variation tbn vs)"

text \<open>The test on a column of the target table, and the first column that passes it.\<close>

definition is_target_column :: "string \<Rightarrow> Column \<Rightarrow> bool" where
  "is_target_column variation target_col =
     (is_primary_key target_col
      \<or> upper (col_name target_col) \<in> set [''ID'', variation @ ''_ID''])"

definition find_target_column :: "string \<Rightarrow> Table \<Rightarrow> Column option" where
  "find_target_column variation target = List.find (is_target_column variation) (columns target)"

definition inferred :: "Table \<Rightarrow> Column \<Rightarrow> Table \<Rightarrow> Column \<Rightarrow> Relationship" where
  "inferred table column target target_col =
     \<lparr>source_table = tbl_name table, target_table = tbl_name target,
      source_column = col_name column, target_column = col_name target_col,
      relationship_type = MANY_TO_ONE, rel_name = None,
      rel_description = Some (''Inferred from naming pattern: '' @ col_name column),
      is_enforced = False\<rparr>"

text \<open>The body of the inner loop for one column: the relationship appended, if any.\<close>

definition infer_column ::
  "(string \<Rightarrow> Table option) \<Rightarrow> Table \<Rightarrow> Column \<Rightarrow> Relationship option" where
  "infer_column tbn table column =
     (if ends_with (upper (col_name column)) ''_ID'' \<and> \<not> is_primary_key column then
        (let potential_target = take (length (col_name column) - 3) (col_name column)
         in case first_variation tbn (target_variations potential_target) of
              None \<Rightarrow> None
            | Some (variation, target) \<Rightarrow>
                (case find_target_column variation target of
                   None \<Rightarrow> None
                 | Some target_col \<Rightarrow> Some (inferred table column target target_col)))
      else None)"

text \<open>
  \<open>_infer_relationships\<close>: the relationships in table and column order, and the tables
  with \<open>is_foreign_key\<close> set on every column that produced a relationship. The lookups
  read only names and \<open>is_primary_key\<close>, which the loop never writes.
\<close>

definition infer_relationships :: "Table list \<Rightarrow> Relationship list \<times> Table list" where
  "infer_relationships tables =
     (let tbn = table_by_name tables
      in (concat (map (\<lambda>t. List.map_filter (infer_column tbn t) (columns t)) tables),
          map (\<lambda>t. t\<lparr>columns :=
                        map (\<lambda>c. if infer_column tbn t c \<noteq> None
                                  then c\<lparr>is_foreign_key := True\<rparr> else c) (columns t)\<rparr>)
            tables))"

subsection \<open>RelationshipMapperTool._infer_relationships_from_naming (tools/schema_tools.py)\<close>

definition naming_variations :: "string \<Rightarrow> string option list" where
  "naming_variations potential_table =
     [Some (upper potential_table),
      Some (upper potential_table @ ''S''),
      (if ends_with potential_table ''s'' then Some (butlast (upper potential_table)) else None),
      Some (upper potential_table @ ''_DIM''),
      Some (upper potential_table @ ''_FACT'')]"

definition is_target_pk :: "string \<Rightarrow> Column \<Rightarrow> bool" where
  "is_target_pk variation target_col =
     (is_primary_key target_col
      \<or> lower (col_name target_col) \<in> set [''id'', lower variation @ ''_id''])"

definition infer_column_from_naming ::
  "(string \<Rightarrow> Table option) \<Rightarrow> Table \<Rightarrow> Column \<Rightarrow> Relationship option" where
  "infer_column_from_naming tbn table column =
     (if ends_with (lower (col_name column)) ''_id'' \<and> \<not> is_primary_key column then
        (let potential_table = take (length (col_name column) - 3) (col_name column)
         in case first_variation tbn (naming_variations potential_table) of
              None \<Rightarrow> None
            | Some (variation, target) \<Rightarrow>
                (case List.find (is_target_pk variation) (columns target) of
                   None \<Rightarrow> None
                 | Some target_pk \<Rightarrow> Some (inferred table column target target_pk)))
      else None)"

definition infer_relationships_from_naming :: "Table list \<Rightarrow> Relationship list" where
  "infer_relationships_from_naming tables =
     (let tbn = table_by_name tables
      in concat (map (\<lambda>t. List.map_filter (infer_column_from_naming tbn t) (columns t)) tables))"

subsection \<open>Sample catalogs\<close>

definition customer_id_column :: Column where
  "customer_id_column = new_column ''customer_id'' ''NUMBER'' False"

definition sample_orders :: Table where
  "sample_orders = new_table ''ORDERS'' ''PUBLIC'' ''DB'' [customer_id_column]"

definition sample_customers :: Table where
  "sample_customers = new_table ''CUSTOMERS'' ''PUBLIC'' ''DB'' [new_column ''id'' ''NUMBER'' False]"


section \<open>Result cache (cost_optimization.py, ResultCacheManager)\<close>

text \<open>
  A Python \<open>dict\<close> keeps its keys in insertion order, and \<open>min\<close> over its keys returns
  the first minimal one in that order; the two dictionaries of the cache are therefore
  association lists. \<open>d[k] = v\<close> is \<open>AList.update\<close> (replace in place, or append),
  \<open>del d[k]\<close> is \<open>AList.delete\<close>, \<open>k in d\<close> is \<open>map_of d k \<noteq> None\<close>.
  Clock readings (\<open>time.time()\<close>) are passed in as an argument of each operation.
\<close>

datatype py_error = ValueError | KeyError

type_synonym rows = "(string \<times> string) list list"

record ResultCacheManager =
  cache :: "(string \<times> rows) list"
  cache_timestamps :: "(string \<times> real) list"
  max_cache_size :: int
  ttl_seconds :: real

text \<open>\<open>__init__\<close>: both dictionaries start empty.\<close>

definition init_cache :: "int \<Rightarrow> real \<Rightarrow> ResultCacheManager" where
  "init_cache cap ttl =
     \<lparr>cache = [], cache_timestamps = [], max_cache_size = cap, ttl_seconds = ttl\<rparr>"

text \<open>
  \<open>get_cache_key\<close>: the MD5 hex digest of the lower-cased, whitespace-collapsed query.
  The digest function of \<open>hashlib\<close> is a parameter of the model.
\<close>

definition get_cache_key :: "(string \<Rightarrow> string) \<Rightarrow> string \<Rightarrow> string" where
  "get_cache_key md5 sql = md5 (join '' '' (split (lower sql)))"

text \<open>
  \<open>min(self.cache_timestamps.keys(), key=lambda k: self.cache_timestamps[k])\<close>:
  the running minimum is replaced only by a strictly smaller timestamp; on an empty
  dictionary \<open>min\<close> raises \<open>ValueError\<close>.
\<close>

fun oldest_of :: "string \<times> real \<Rightarrow> (string \<times> real) list \<Rightarrow> string \<times> real" where
  "oldest_of best [] = best"
| "oldest_of best (p # ps) = oldest_of (if snd p < snd best then p else best) ps"

definition oldest_key :: "(string \<times> real) list \<Rightarrow> py_error + string" where
  "oldest_key ts = (case ts of [] \<Rightarrow> Inl ValueError | p # ps \<Rightarrow> Inr (fst (oldest_of p ps)))"

text \<open>
  \<open>get_cached_result\<close>: the outcome (an exception or the optional rows) and the cache
  after the call. An entry whose age exceeds the TTL is deleted from both dictionaries.
\<close>

definition get_cached_result ::
  "(string \<Rightarrow> string) \<Rightarrow> ResultCacheManager \<Rightarrow> real \<Rightarrow> string
     \<Rightarrow> (py_error + rows option) \<times> ResultCacheManager" where
  "get_cached_result md5 self now sql =
     (let cache_key = get_cache_key md5 sql in
      if map_of (cache self) cache_key = None then (Inr None, self)
      else (case map_of (cache_timestamps self) cache_key of
              None \<Rightarrow> (Inl KeyError, self)
            | Some ts \<Rightarrow>
                if now - ts > ttl_seconds self
                then (Inr None,
                      self\<lparr>cache := AList.delete cache_key (cache self),
                           cache_timestamps := AList.delete cache_key (cache_timestamps self)\<rparr>)
                else (Inr (map_of (cache self) cache_key), self)))"

text \<open>
  \<open>cache_result\<close>: when the cache is full the oldest key is deleted from both
  dictionaries, then the entry and its timestamp are stored. Every exception is raised
  before the first mutation, so a failed call leaves the cache as it was.
\<close>

definition store_entry ::
  "string \<Rightarrow> rows \<Rightarrow> real \<Rightarrow> ResultCacheManager \<Rightarrow> ResultCacheManager" where
  "store_entry cache_key result now self =
     self\<lparr>cache := AList.update cache_key result (cache self),
          cache_timestamps := AList.update cache_key now (cache_timestamps self)\<rparr>"

definition cache_result ::
  "(string \<Rightarrow> string) \<Rightarrow> ResultCacheManager \<Rightarrow> real \<Rightarrow> string \<Rightarrow> rows
     \<Rightarrow> (py_error + unit) \<times> ResultCacheManager" where
  "cache_result md5 self now sql result =
     (let cache_key = get_cache_key md5 sql in
      if int (length (cache self)) \<ge> max_cache_size self then
        (case oldest_key (cache_timestamps self) of
           Inl e \<Rightarrow> (Inl e, self)
         | Inr oldest \<Rightarrow>
             if map_of (cache self) oldest = None then (Inl KeyError, self)
             else (Inr (),
                   store_entry cache_key result now
                     (self\<lparr>cache := AList.delete oldest (cache self),
                           cache_timestamps := AList.delete oldest (cache_timestamps self)\<rparr>)))
      else (Inr (), store_entry cache_key result now self))"

text \<open>A caller's sequence of lookups and inserts, each with its clock reading.\<close>

datatype cache_op = Lookup string real | Insert string rows real

fun apply_cache_op ::
  "(string \<Rightarrow> string) \<Rightarrow> ResultCacheManager \<Rightarrow> cache_op \<Rightarrow> ResultCacheManager" where
  "apply_cache_op md5 self (Lookup sql now) = snd (get_cached_result md5 self now sql)"
| "apply_cache_op md5 self (Insert sql result now) = snd (cache_result md5 self now sql result)"

definition run_cache_ops ::
  "(string \<Rightarrow> string) \<Rightarrow> ResultCacheManager \<Rightarrow> cache_op list \<Rightarrow> ResultCacheManager" where
  "run_cache_ops md5 self ops = foldl (apply_cache_op md5) self ops"

text \<open>The invariant of the two dictionaries: the same keys in the same order, each once.\<close>

definition cache_inv :: "ResultCacheManager \<Rightarrow> bool" where
  "cache_inv self \<longleftrightarrow>
     map fst (cache self) = map fst (cache_timestamps self) \<and> distinct (map fst (cache self))"

text \<open>A stand-in digest for evaluating the cache on concrete queries.\<close>

definition plain_digest :: "string \<Rightarrow> string" where
  "plain_digest s = s"


definition cache_ok :: "int \<Rightarrow> ResultCacheManager \<Rightarrow> bool" where
  "cache_ok m self \<longleftrightarrow>
     cache_inv self \<and> max_cache_size self = m \<and> int (length (cache self)) \<le> m"

section \<open>Semantic layer and catalog (schema/models.py, schema/catalog.py)\<close>

text \<open>
  \<open>SemanticLayer\<close>: its dictionaries as association lists in insertion order. The
  catalog (\<open>SchemaCatalog\<close>) adds persistence to it; its file operations are
  collaborators of the model.
\<close>

record SemanticLayer =
  tables :: "(string \<times> Table) list"
  business_metrics :: "(string \<times> string) list"
  business_dimensions :: "(string \<times> string) list"
  common_joins :: "(string \<times> string) list"
  business_rules :: "string list"
  glossary :: "(string \<times> string) list"

definition empty_layer :: SemanticLayer where
  "empty_layer =
     \<lparr>tables = [], business_metrics = [], business_dimensions = [], common_joins = [],
      business_rules = [], glossary = []\<rparr>"

text \<open>Truthiness of an optional string: neither \<open>None\<close> nor empty.\<close>

definition truthy :: "string option \<Rightarrow> bool" where
  "truthy x = (case x of None \<Rightarrow> False | Some v \<Rightarrow> v \<noteq> [])"

text \<open>\<open>a or b\<close> for an optional string \<open>a\<close> and a string \<open>b\<close>.\<close>

definition or_else :: "string option \<Rightarrow> string \<Rightarrow> string" where
  "or_else a b = (case a of None \<Rightarrow> b | Some v \<Rightarrow> if v \<noteq> [] then v else b)"

definition full_name :: "Table \<Rightarrow> string" where
  "full_name table = tbl_database table @ ''.'' @ tbl_schema table @ ''.'' @ tbl_name table"

definition add_table :: "Table \<Rightarrow> SemanticLayer \<Rightarrow> SemanticLayer" where
  "add_table table layer = layer\<lparr>tables := AList.update (full_name table) table (tables layer)\<rparr>"

text \<open>
  \<open>get_table\<close>: the exact key first, else the first table whose name matches in any
  letter case. The key of the entry found is returned with it.
\<close>

definition get_entry :: "SemanticLayer \<Rightarrow> string \<Rightarrow> (string \<times> Table) option" where
  "get_entry layer table_name =
     (case map_of (tables layer) table_name of
        Some table \<Rightarrow> Some (table_name, table)
      | None \<Rightarrow> List.find (\<lambda>(k, table). lower (tbl_name table) = lower table_name) (tables layer))"

definition get_table :: "SemanticLayer \<Rightarrow> string \<Rightarrow> Table option" where
  "get_table layer table_name = map_option snd (get_entry layer table_name)"

definition add_business_metric ::
  "string \<Rightarrow> string \<Rightarrow> string option \<Rightarrow> SemanticLayer \<Rightarrow> SemanticLayer" where
  "add_business_metric name sql_expression description layer =
     layer\<lparr>business_metrics := AList.update name sql_expression (business_metrics layer),
           glossary := (case description of
                          None \<Rightarrow> glossary layer
                        | Some d \<Rightarrow> if d \<noteq> [] then AList.update name d (glossary layer)
                                    else glossary layer)\<rparr>"

definition add_business_rule :: "string \<Rightarrow> SemanticLayer \<Rightarrow> SemanticLayer" where
  "add_business_rule rule layer = layer\<lparr>business_rules := business_rules layer @ [rule]\<rparr>"

text \<open>
  \<open>add_relationship\<close>: appended to the relationships of the source table, when the
  catalog has it.
\<close>

definition add_relationship :: "Relationship \<Rightarrow> SemanticLayer \<Rightarrow> SemanticLayer" where
  "add_relationship relationship layer =
     (case get_entry layer (source_table relationship) of
        None \<Rightarrow> layer
      | Some (k, table) \<Rightarrow>
          layer\<lparr>tables := AList.update k
                    (table\<lparr>relationships := relationships table @ [relationship]\<rparr>)
                    (tables layer)\<rparr>)"

subsection \<open>SemanticLayer.get_context_for_llm\<close>

definition type_value :: "RelationshipType \<Rightarrow> string" where
  "type_value t = (case t of ONE_TO_ONE \<Rightarrow> ''ONE_TO_ONE'' | ONE_TO_MANY \<Rightarrow> ''ONE_TO_MANY''
     | MANY_TO_ONE \<Rightarrow> ''MANY_TO_ONE'' | MANY_TO_MANY \<Rightarrow> ''MANY_TO_MANY'')"

definition render_column :: "Column \<Rightarrow> string" where
  "render_column col =
     ''  - '' @ col_name col @ '' ('' @ data_type col @ '')''
     @ (if truthy (col_business_name col)
        then '' [Business: '' @ or_else (col_business_name col) [] @ '']'' else [])
     @ (if truthy (col_description col) then '' - '' @ or_else (col_description col) [] else [])
     @ (if is_primary_key col then '' [PRIMARY KEY]'' else [])
     @ (if is_foreign_key col then '' [FOREIGN KEY]'' else [])"

definition render_relationship :: "Relationship \<Rightarrow> string" where
  "render_relationship rel =
     ''  - '' @ source_table rel @ ''.'' @ source_column rel @ '' -> '' @ target_table rel
     @ ''.'' @ target_column rel @ '' ('' @ type_value (relationship_type rel) @ '')''"

definition render_table :: "Table \<Rightarrow> string list" where
  "render_table table =
     [[CHR 0x0A] @ ''Table: '' @ tbl_name table]
     @ (if truthy (tbl_business_name table)
        then [''Business Name: '' @ or_else (tbl_business_name table) []] else [])
     @ (if truthy (tbl_description table)
        then [''Description: '' @ or_else (tbl_description table) []] else [])
     @ [''Columns:''] @ map render_column (columns table)
     @ (if relationships table \<noteq> []
        then ''Relationships:'' # map render_relationship (relationships table) else [])"

definition context_parts :: "SemanticLayer \<Rightarrow> string list" where
  "context_parts layer =
     (if glossary layer \<noteq> []
      then ''=== BUSINESS GLOSSARY ==='' # map (\<lambda>(term, definition). term @ '': '' @ definition)
             (glossary layer) @ [[]]
      else [])
     @ (if business_metrics layer \<noteq> []
        then ''=== BUSINESS METRICS ==='' # map (\<lambda>(metric, sql). metric @ '': '' @ sql)
               (business_metrics layer) @ [[]]
        else [])
     @ [''=== DATABASE SCHEMA ===''] @ concat (map (\<lambda>(k, table). render_table table) (tables layer))
     @ (if common_joins layer \<noteq> []
        then ([CHR 0x0A] @ ''=== COMMON JOINS ==='')
             # map (\<lambda>(join_name, join_sql). join_name @ '': '' @ join_sql) (common_joins layer)
        else [])
     @ (if business_rules layer \<noteq> []
        then ([CHR 0x0A] @ ''=== BUSINESS RULES ==='') # map (\<lambda>rule. ''- '' @ rule) (business_rules layer)
        else [])"

definition layer_context_for_llm :: "SemanticLayer \<Rightarrow> string" where
  "layer_context_for_llm layer = join [CHR 0x0A] (context_parts layer)"

subsection \<open>SchemaCatalog\<close>

text \<open>\<open>get_context_for_llm(table_names)\<close>; no names means the whole layer.\<close>

definition get_context_for_llm :: "SemanticLayer \<Rightarrow> string list \<Rightarrow> string" where
  "get_context_for_llm layer table_names =
     (if table_names \<noteq> [] then
        layer_context_for_llm
          (foldl (\<lambda>filtered table_name.
                    case get_table layer table_name of
                      None \<Rightarrow> filtered | Some table \<Rightarrow> add_table table filtered)
             (layer\<lparr>tables := []\<rparr>) table_names)
      else layer_context_for_llm layer)"

text \<open>
  \<open>find_related_tables\<close>: the sets of the source are duplicate-free lists; the order of
  the list returned is the collaborator's.
\<close>

definition neighbours :: "SemanticLayer \<Rightarrow> Table \<Rightarrow> string list" where
  "neighbours layer table =
     concat (map (\<lambda>rel. if source_table rel = tbl_name table then [target_table rel]
                        else if target_table rel = tbl_name table then [source_table rel] else [])
               (relationships table))
     @ concat (map (\<lambda>(k, other_table).
                 concat (map (\<lambda>rel. if target_table rel = tbl_name table then [source_table rel]
                                    else if source_table rel = tbl_name table
                                    then [target_table rel] else [])
                           (relationships other_table)))
               (tables layer))"

fun related_loop :: "nat \<Rightarrow> SemanticLayer \<Rightarrow> string list \<Rightarrow> string list \<Rightarrow> string list" where
  "related_loop 0 layer related_tables current_tables = related_tables"
| "related_loop (Suc depth) layer related_tables current_tables =
     (let next_tables =
            concat (map (\<lambda>current_table.
                      case get_table layer current_table of
                        None \<Rightarrow> [] | Some table \<Rightarrow> neighbours layer table) current_tables);
          next_tables = remdups (filter (\<lambda>t. t \<notin> set related_tables \<and> t \<notin> set current_tables)
                                   next_tables);
          related_tables = related_tables @ next_tables
      in if next_tables = [] then related_tables
         else related_loop depth layer related_tables next_tables)"

definition find_related_tables ::
  "(string list \<Rightarrow> string list) \<Rightarrow> SemanticLayer \<Rightarrow> string \<Rightarrow> nat \<Rightarrow> string list" where
  "find_related_tables order layer table_name max_depth =
     order (related_loop max_depth layer [] [table_name])"

definition table_suggestion :: "string \<Rightarrow> Table \<Rightarrow> string list" where
  "table_suggestion query_lower table =
     (if contains query_lower (lower (tbl_name table))
         \<or> (truthy (tbl_business_name table)
             \<and> contains query_lower (lower (or_else (tbl_business_name table) [])))
      then [tbl_name table]
      else if list_ex (\<lambda>column. contains query_lower (lower (col_name column))
                         \<or> (truthy (col_business_name column)
                             \<and> contains query_lower (lower (or_else (col_business_name column) []))))
                (columns table)
      then [tbl_name table] else [])"

definition get_table_suggestions ::
  "(string list \<Rightarrow> string list) \<Rightarrow> SemanticLayer \<Rightarrow> string \<Rightarrow> string list" where
  "get_table_suggestions order layer query_text =
     (let query_lower = lower query_text;
          suggestions = concat (map (\<lambda>(k, table). table_suggestion query_lower table) (tables layer));
          suggestions = suggestions
            @ concat (map (\<lambda>(metric_name, sql).
                        if contains query_lower (lower metric_name)
                        then concat (map (\<lambda>(k, table).
                               if list_ex (\<lambda>col. semantic_type col = Some ''measure'') (columns table)
                               then [tbl_name table] else []) (tables layer))
                        else []) (business_metrics layer))
      in order (remdups suggestions))"

section \<open>Semantic catalog tool and schema agent (tools/schema_tools.py, agents/schema_agent.py)\<close>

subsection \<open>SemanticCatalogTool\<close>

text \<open>
  \<open>_add_default_business_context\<close>: the metrics for sales, order, customer and user
  tables, then the four business rules. For a customer or user table with no column at
  all \<open>table.columns[0]\<close> raises \<open>IndexError\<close>; the layer keeps what was added before.
\<close>

definition sales_metrics :: "Table \<Rightarrow> SemanticLayer \<Rightarrow> SemanticLayer" where
  "sales_metrics table layer =
     foldl (\<lambda>layer column.
              if contains (lower (col_name column)) ''amount''
                 \<or> contains (lower (col_name column)) ''total''
              then add_business_metric (''Total_'' @ tbl_name table @ ''_Amount'')
                     (''SUM('' @ [CHR 0x22] @ tbl_name table @ [CHR 0x22] @ ''.''
                      @ [CHR 0x22] @ col_name column @ [CHR 0x22] @ '')'')
                     (Some (''Total amount from ''
                            @ or_else (tbl_business_name table) (tbl_name table)))
                     layer
              else layer)
       layer (columns table)"

definition customer_metric :: "Table \<Rightarrow> SemanticLayer \<Rightarrow> string + SemanticLayer" where
  "customer_metric table layer =
     (case (if list_ex (\<lambda>c. col_name c = ''ID'') (columns table) then Inr ''ID''
            else (case columns table of
                    [] \<Rightarrow> Inl ''list index out of range''
                  | c # cs \<Rightarrow> Inr (col_name c))) of
        Inl e \<Rightarrow> Inl e
      | Inr id_column \<Rightarrow>
          Inr (add_business_metric (''Total_'' @ tbl_name table @ ''_Count'')
                 (''COUNT(DISTINCT '' @ [CHR 0x22] @ tbl_name table @ [CHR 0x22] @ ''.''
                  @ [CHR 0x22] @ id_column @ [CHR 0x22] @ '')'')
                 (Some (''Total number of unique ''
                        @ or_else (tbl_business_name table) (lower (tbl_name table))))
                 layer))"

fun default_metrics :: "Table list \<Rightarrow> SemanticLayer \<Rightarrow> string option \<times> SemanticLayer" where
  "default_metrics [] layer = (None, layer)"
| "default_metrics (table # ts) layer =
     (let table_name_lower = lower (tbl_name table);
          layer = (if contains table_name_lower ''sales'' \<or> contains table_name_lower ''order''
                   then sales_metrics table layer else layer)
      in if contains table_name_lower ''customer'' \<or> contains table_name_lower ''user''
         then (case customer_metric table layer of
                 Inl e \<Rightarrow> (Some e, layer)
               | Inr layer \<Rightarrow> default_metrics ts layer)
         else default_metrics ts layer)"

definition default_business_rules :: "string list" where
  "default_business_rules =
     [''All monetary amounts should be in USD unless specified otherwise'',
      ''Date filters should respect business calendar (exclude weekends for business metrics)'',
      ''Customer data should be filtered to exclude test accounts when analyzing production metrics'',
      ''Historical comparisons should use same-period-last-year unless specified otherwise'']"

definition add_default_business_context ::
  "Table list \<Rightarrow> SemanticLayer \<Rightarrow> string option \<times> SemanticLayer" where
  "add_default_business_context ts layer =
     (case default_metrics ts layer of
        (Some e, layer) \<Rightarrow> (Some e, layer)
      | (None, layer) \<Rightarrow> (None, foldl (\<lambda>layer rule. add_business_rule rule layer) layer
                                   default_business_rules))"

section \<open>SQL generation (llm_client.py, tools/sql_tools.py, agents/sql_agent.py)\<close>

text \<open>
  The collaborators outside the repository are parameters of the model, collected in one
  record. Each is indexed by the number of calls made to it before, so that successive
  calls may answer differently.
  \<^item> \<open>llm_api k question context current_date\<close>: the text the language-model service
    returns to the prompt built from these three, or \<open>None\<close> when the call raises
    (\<open>generate_sql_query\<close> catches the exception and returns \<open>None\<close>).
  \<^item> \<open>db_execute k sql\<close>: the rows \<open>db_connector.execute_query\<close> returns, or the text of
    the exception it raises.
  \<^item> \<open>discover database schema\<close>: the tables the schema discovery tool returns (an empty
    list for "no tables found"), or the text of the exception it raises.
  \<^item> \<open>foreign_keys schema\<close>: the rows of the mapper tool's foreign-key query as (source
    table, source column, target table, target column, constraint name), empty when
    that query fails; or the text of the exception the tool raises outside that query.
  \<^item> \<open>save_catalog layer\<close>: \<open>None\<close> when writing the catalog file succeeds, else the text
    of the exception.
  \<^item> \<open>set_order\<close>: the order in which \<open>list(set(...))\<close> lists the elements.
  \<^item> \<open>analyze question rows context\<close>: the analysis agent's reply, as its status and the
    two entries the workflow reads.
  \<^item> \<open>today\<close>: the current date as \<open>strftime\<close> formats it.
\<close>

record analysis_reply =
  an_status :: string
  comprehensive_results :: "string option"
  insights :: "string option"

record environment =
  llm_api :: "nat \<Rightarrow> string \<Rightarrow> string \<Rightarrow> string \<Rightarrow> string option"
  db_execute :: "nat \<Rightarrow> string \<Rightarrow> string + rows"
  discover :: "string \<Rightarrow> string \<Rightarrow> string + Table list"
  foreign_keys :: "string \<Rightarrow> string + (string \<times> string \<times> string \<times> string \<times> string) list"
  save_catalog :: "SemanticLayer \<Rightarrow> string option"
  set_order :: "string list \<Rightarrow> string list"
  analyze :: "string \<Rightarrow> rows \<Rightarrow> string \<Rightarrow> analysis_reply"
  today :: string

subsection \<open>LLMClient.generate_sql_query\<close>

text \<open>The clean-up of the service's text: strip, drop the code fences, strip.\<close>

definition strip_fences :: "string \<Rightarrow> string" where
  "strip_fences text =
     (let sql_query = strip text;
          sql_query = (if starts_with sql_query ''```sql'' then drop 6 sql_query else sql_query);
          sql_query = (if ends_with sql_query ''```''
                       then take (length sql_query - 3) sql_query else sql_query)
      in strip sql_query)"

definition generate_sql_query ::
  "environment \<Rightarrow> nat \<Rightarrow> string \<Rightarrow> string \<Rightarrow> string \<Rightarrow> string option" where
  "generate_sql_query env k question semantic_context current_date =
     map_option strip_fences (llm_api env k question semantic_context current_date)"

subsection \<open>NLToSQLTool\<close>

definition clean_sql_query :: "string \<Rightarrow> string" where
  "clean_sql_query sql_query =
     (if sql_query = [] then []
      else let query = strip sql_query;
               query = (if starts_with query ''```sql'' then drop 6 query else query);
               query = (if starts_with query ''```'' then drop 3 query else query);
               query = (if ends_with query ''```'' then take (length query - 3) query else query);
               lines = split_on (CHR 0x0A) query;
               cleaned_lines = filter (\<lambda>stripped. stripped \<noteq> []) (map strip lines)
           in join [CHR 0x0A] cleaned_lines)"

text \<open>
  \<open>NLToSQLTool.execute\<close>: \<open>status\<close> and \<open>sql_query\<close> of the returned dictionary. The
  syntax validation and the query analysis it also returns are informational only; no
  caller reads them.
\<close>

record nl_to_sql_result =
  nl_status :: string
  nl_sql_query :: "string option"

definition nl_to_sql_execute ::
  "environment \<Rightarrow> nat \<Rightarrow> string \<Rightarrow> string \<Rightarrow> string \<Rightarrow> string \<Rightarrow> nl_to_sql_result" where
  "nl_to_sql_execute env k question context current_date complexity_level =
     (case generate_sql_query env k question context current_date of
        None \<Rightarrow> \<lparr>nl_status = ''error'', nl_sql_query = None\<rparr>
      | Some sql_query \<Rightarrow>
          if sql_query = [] then \<lparr>nl_status = ''error'', nl_sql_query = None\<rparr>
          else \<lparr>nl_status = ''success'', nl_sql_query = Some (clean_sql_query sql_query)\<rparr>)"

subsection \<open>QueryOptimizerTool\<close>

text \<open>
  \<open>_apply_basic_optimizations\<close> and \<open>_apply_advanced_optimizations\<close> return the query
  they are given together with a list of recommendations; only the query is modelled.
\<close>

definition apply_basic_optimizations :: "string \<Rightarrow> string" where
  "apply_basic_optimizations sql_query = sql_query"

definition apply_advanced_optimizations :: "string \<Rightarrow> string" where
  "apply_advanced_optimizations sql_query = sql_query"

definition optimizer_execute :: "string \<Rightarrow> string \<Rightarrow> string" where
  "optimizer_execute sql_query optimization_level =
     (let optimized_query = sql_query;
          optimized_query =
            (if optimization_level \<in> set [''moderate'', ''aggressive'']
             then apply_basic_optimizations optimized_query else optimized_query);
          optimized_query =
            (if optimization_level = ''aggressive''
             then apply_advanced_optimizations optimized_query else optimized_query)
      in optimized_query)"

subsection \<open>SQLAgent\<close>

text \<open>
  The agent's configuration and the part of its context that it reads back
  (\<open>last_generation\<close>, of which \<open>_optimize_sql\<close> reads the query). The log of calls to
  the language-model service is kept beside it: one entry (question, context) per call.
\<close>

record sql_agent =
  security_mode :: string
  optimization_level :: string
  last_generation :: "string option"
  llm_calls :: "(string \<times> string) list"

record generate_result =
  gen_status :: string
  gen_message :: string
  gen_sql_query :: "string option"
  gen_security :: "validation_result option"

definition generate_sql ::
  "environment \<Rightarrow> sql_agent \<Rightarrow> string \<Rightarrow> string \<Rightarrow> generate_result \<times> sql_agent" where
  "generate_sql env agent question context =
     (if question = [] \<or> context = [] then
        (\<lparr>gen_status = ''error'',
          gen_message = ''Question and context are required for SQL generation'',
          gen_sql_query = None, gen_security = None\<rparr>, agent)
      else
        let complexity_level = determine_complexity_level question;
            sql_result = nl_to_sql_execute env (length (llm_calls agent)) question context
                           (today env) complexity_level;
            agent = agent\<lparr>llm_calls := llm_calls agent @ [(question, context)]\<rparr>
        in if nl_status sql_result \<noteq> ''success'' then
             (\<lparr>gen_status = ''error'', gen_message = ''Failed to generate SQL query'',
               gen_sql_query = None, gen_security = None\<rparr>, agent)
           else
             (case nl_sql_query sql_result of
                None \<Rightarrow>
                  (\<lparr>gen_status = ''error'', gen_message = ''Failed to generate SQL query'',
                    gen_sql_query = None, gen_security = None\<rparr>, agent)
              | Some sql_query \<Rightarrow>
                  let security_result =
                        security_validator_execute sql_query (security_mode agent = ''strict'')
                  in if \<not> is_secure security_result then
                       (\<lparr>gen_status = ''error'',
                         gen_message = ''Generated SQL failed security validation'',
                         gen_sql_query = None, gen_security = Some security_result\<rparr>, agent)
                     else
                       (\<lparr>gen_status = ''success'',
                         gen_message = ''SQL query generated successfully'',
                         gen_sql_query = Some sql_query, gen_security = Some security_result\<rparr>,
                        agent\<lparr>last_generation := Some sql_query\<rparr>)))"

text \<open>\<open>_optimize_sql\<close>: the status and the optimized query of the result.\<close>

definition optimize_sql :: "sql_agent \<Rightarrow> string \<Rightarrow> string \<times> string option" where
  "optimize_sql agent sql_query =
     (let sql_query =
            (if sql_query = [] then (case last_generation agent of None \<Rightarrow> [] | Some q \<Rightarrow> q)
             else sql_query)
      in if sql_query = [] then (''error'', None)
         else (''success'', Some (optimizer_execute sql_query (optimization_level agent))))"

record sql_workflow_result =
  sw_status :: string
  sw_message :: string
  sw_final_sql :: "string option"

text \<open>\<open>_complete_sql_workflow\<close>: generation, then optimization when requested.\<close>

definition complete_sql_workflow ::
  "environment \<Rightarrow> sql_agent \<Rightarrow> string \<Rightarrow> string \<Rightarrow> bool
     \<Rightarrow> sql_workflow_result \<times> sql_agent" where
  "complete_sql_workflow env agent question context optimize =
     (let (gen_result, agent) = generate_sql env agent question context
      in if gen_status gen_result \<noteq> ''success'' then
           (\<lparr>sw_status = ''error'', sw_message = ''Failed to generate initial SQL'',
             sw_final_sql = None\<rparr>, agent)
         else
           let current_sql = (case gen_sql_query gen_result of None \<Rightarrow> [] | Some q \<Rightarrow> q);
               current_sql =
                 (if optimize then
                    (case optimize_sql agent current_sql of
                       (opt_status, Some optimized_query) \<Rightarrow>
                         if opt_status = ''success'' \<and> optimized_query \<noteq> []
                            \<and> optimized_query \<noteq> current_sql
                         then optimized_query else current_sql
                     | (opt_status, None) \<Rightarrow> current_sql)
                  else current_sql)
           in (\<lparr>sw_status = ''success'', sw_message = ''SQL workflow completed successfully'',
                sw_final_sql = Some current_sql\<rparr>, agent))"

record fix_result =
  fix_status :: string
  fix_message :: string
  corrected_sql :: "string option"
  security_validation :: "validation_result option"

text \<open>
  \<open>_fix_sql\<close>: the corrected query is validated and the validation result is returned
  with it; the status does not depend on the validation result.
\<close>

definition enhanced_context :: "string \<Rightarrow> string \<Rightarrow> string \<Rightarrow> string" where
  "enhanced_context context failed_sql error_message =
     [CHR 0x0A] @ context @ [CHR 0x0A, CHR 0x0A] @ ''PREVIOUS FAILED QUERY:'' @ [CHR 0x0A]
     @ failed_sql @ [CHR 0x0A, CHR 0x0A] @ ''ERROR MESSAGE:'' @ [CHR 0x0A]
     @ error_message @ [CHR 0x0A, CHR 0x0A]
     @ ''Please generate a corrected SQL query that addresses the error above.'' @ [CHR 0x0A]"

definition fix_sql ::
  "environment \<Rightarrow> sql_agent \<Rightarrow> string \<Rightarrow> string \<Rightarrow> string \<Rightarrow> string
     \<Rightarrow> fix_result \<times> sql_agent" where
  "fix_sql env agent question context failed_sql error_message =
     (if question = [] \<or> context = [] \<or> failed_sql = [] \<or> error_message = [] then
        (\<lparr>fix_status = ''error'', fix_message = ''Missing required parameters for SQL fixing'',
          corrected_sql = None, security_validation = None\<rparr>, agent)
      else
        let fix = nl_to_sql_execute env (length (llm_calls agent)) question
                    (enhanced_context context failed_sql error_message) (today env)
                    (determine_complexity_level question);
            agent = agent\<lparr>llm_calls := llm_calls agent
                      @ [(question, enhanced_context context failed_sql error_message)]\<rparr>
        in if nl_status fix \<noteq> ''success'' then
             (\<lparr>fix_status = ''error'', fix_message = ''Failed to generate corrected SQL query'',
               corrected_sql = None, security_validation = None\<rparr>, agent)
           else
             (case nl_sql_query fix of
                None \<Rightarrow>
                  (\<lparr>fix_status = ''error'',
                    fix_message = ''Failed to generate corrected SQL query'',
                    corrected_sql = None, security_validation = None\<rparr>, agent)
              | Some corrected \<Rightarrow>
                  (\<lparr>fix_status = ''success'', fix_message = ''SQL query corrected successfully'',
                    corrected_sql = Some corrected,
                    security_validation =
                      Some (security_validator_execute corrected
                              (security_mode agent = ''strict''))\<rparr>, agent)))"

section \<open>Catalog tool actions and the schema agent\<close>

subsection \<open>SemanticCatalogTool: build and get_context\<close>

text \<open>
  \<open>_build_catalog\<close>: tables, then relationships, then the default business context,
  then the save. The outcome is the text of the exception raised, if any, and the layer
  as the call leaves it. (The statistics and the validation report it returns are not
  read by the workflow.)
\<close>

definition catalog_tool_build_catalog ::
  "environment \<Rightarrow> SemanticLayer \<Rightarrow> Table list \<Rightarrow> Relationship list
     \<Rightarrow> string option \<times> SemanticLayer" where
  "catalog_tool_build_catalog env layer ts rels =
     (let layer = foldl (\<lambda>layer table. add_table table layer) layer ts;
          layer = foldl (\<lambda>layer relationship. add_relationship relationship layer) layer rels
      in case add_default_business_context ts layer of
           (Some e, layer) \<Rightarrow> (Some e, layer)
         | (None, layer) \<Rightarrow> (save_catalog env layer, layer))"

text \<open>
  The catalog stores the very \<open>Table\<close> objects of the discovered list, so the
  relationships appended by the build are seen through the list as well: each list
  element that is the last one with its full name is the object stored under that key.
\<close>

fun sync_tables :: "(string \<times> Table) list \<Rightarrow> Table list \<Rightarrow> Table list" where
  "sync_tables stored [] = []"
| "sync_tables stored (table # ts) =
     (if full_name table \<in> full_name ` set ts then table
      else (case map_of stored (full_name table) of None \<Rightarrow> table | Some table' \<Rightarrow> table'))
     # sync_tables stored ts"

record tool_context_result =
  tc_context :: string
  tc_suggested_tables :: "string list"
  tc_related_tables :: "string list"

definition catalog_tool_get_context :: "environment \<Rightarrow> SemanticLayer \<Rightarrow> string \<Rightarrow> tool_context_result" where
  "catalog_tool_get_context env layer query_text =
     (let suggested_tables = get_table_suggestions (set_order env) layer query_text
      in if suggested_tables \<noteq> [] then
           let related_tables =
                 concat (map (\<lambda>table_name. find_related_tables (set_order env) layer table_name 1)
                           suggested_tables);
               all_relevant_tables = set_order env (remdups (suggested_tables @ related_tables))
           in \<lparr>tc_context = get_context_for_llm layer all_relevant_tables,
               tc_suggested_tables = suggested_tables, tc_related_tables = all_relevant_tables\<rparr>
         else \<lparr>tc_context = get_context_for_llm layer [],
               tc_suggested_tables = suggested_tables,
               tc_related_tables = map fst (tables layer)\<rparr>)"

subsection \<open>SchemaAgent\<close>

text \<open>
  The agent's context entries \<open>catalog_built\<close> and \<open>last_discovery\<close>, and the catalog
  of its semantic catalog tool. The catalog is loaded from its file when the tool is
  constructed, so it need not be empty before the first build.
\<close>

record schema_agent =
  catalog_built :: bool
  last_discovery :: "(Table list \<times> Relationship list) option"
  catalog :: SemanticLayer

text \<open>The dictionaries the agent returns: status, message, and the context when present.\<close>

record context_result =
  cr_status :: string
  cr_message :: string
  cr_context :: string
  cr_source :: string
  cr_suggested_tables :: "string list"

definition agent_error :: "string \<Rightarrow> context_result" where
  "agent_error msg =
     \<lparr>cr_status = ''error'', cr_message = msg, cr_context = [], cr_source = [],
      cr_suggested_tables = []\<rparr>"

definition explicit_relationship ::
  "string \<times> string \<times> string \<times> string \<times> string \<Rightarrow> Relationship" where
  "explicit_relationship fk_info =
     (case fk_info of (st, sc, tt, tc, constraint_name) \<Rightarrow>
        \<lparr>source_table = st, target_table = tt, source_column = sc, target_column = tc,
         relationship_type = MANY_TO_ONE, rel_name = Some constraint_name,
         rel_description = None, is_enforced = True\<rparr>)"

text \<open>
  \<open>_discover_schema\<close>: an exception of either tool reaches \<open>execute\<close>, which turns it
  into an error result. The outcome is the error text, or the tables and relationships
  that the agent stores as \<open>last_discovery\<close>.
\<close>

definition discover_schema ::
  "environment \<Rightarrow> string \<Rightarrow> string \<Rightarrow> string + Table list \<times> Relationship list" where
  "discover_schema env database schema =
     (case discover env database schema of
        Inl e \<Rightarrow> Inl e
      | Inr discovered_tables \<Rightarrow>
          (case foreign_keys env schema of
             Inl e \<Rightarrow> Inl e
           | Inr fk_result \<Rightarrow>
               Inr (discovered_tables,
                    map explicit_relationship fk_result
                    @ infer_relationships_from_naming discovered_tables)))"

text \<open>
  \<open>_build_catalog\<close>: discovery first when there is no \<open>last_discovery\<close>, then the
  tool's build. The outcome is the error text, if any, and the agent; \<open>catalog_built\<close>
  is set only when the tool returns.
\<close>

definition build_catalog ::
  "environment \<Rightarrow> schema_agent \<Rightarrow> string \<Rightarrow> string \<Rightarrow> string option \<times> schema_agent" where
  "build_catalog env agent database schema =
     (case (case last_discovery agent of
              Some discovery_data \<Rightarrow> Inr discovery_data
            | None \<Rightarrow> discover_schema env database schema) of
        Inl e \<Rightarrow> (Some e, agent)
      | Inr (ts, rels) \<Rightarrow>
          (case catalog_tool_build_catalog env (catalog agent) ts rels of
             (err, layer) \<Rightarrow>
               (err,
                agent\<lparr>catalog := layer,
                      last_discovery := Some (sync_tables (tables layer) ts, rels),
                      catalog_built := (if err = None then True else catalog_built agent)\<rparr>)))"

text \<open>\<open>execute\<close> with a \<open>get_context\<close> task, that is \<open>_get_context_for_query\<close>.\<close>

definition get_context_for_query ::
  "environment \<Rightarrow> schema_agent \<Rightarrow> string \<Rightarrow> string \<Rightarrow> string
     \<Rightarrow> context_result \<times> schema_agent" where
  "get_context_for_query env agent query_text database schema =
     (if query_text = [] then (agent_error ''No query text provided'', agent)
      else
        case (if \<not> catalog_built agent then build_catalog env agent database schema
              else (None, agent)) of
          (Some e, agent) \<Rightarrow> (agent_error e, agent)
        | (None, agent) \<Rightarrow>
            let context_result = catalog_tool_get_context env (catalog agent) query_text
            in (\<lparr>cr_status = ''success'', cr_message = ''Context retrieved successfully'',
                 cr_context = tc_context context_result, cr_source = [],
                 cr_suggested_tables = tc_suggested_tables context_result\<rparr>, agent))"

section \<open>Orchestrator (agents/orchestrator_agent.py)\<close>

record exec_result =
  ex_status :: string
  ex_results :: rows
  ex_result_count :: nat
  ex_error :: string
  ex_sql_query :: string

datatype step_result =
  ContextStep context_result
| SqlStep sql_workflow_result
| ExecStep exec_result
| FixStep fix_result
| AnalysisStep analysis_reply

record workflow_result =
  wf_status :: string
  wf_message :: string
  wf_sql_query :: "string option"
  wf_results :: rows
  wf_result_count :: nat
  wf_analysis :: "string option"
  wf_insights :: "string option"
  workflow_log :: "(string \<times> step_result) list"

text \<open>
  The orchestrator: its configuration, the entries of its context, its two agents, and
  the log of the queries submitted to the query executor, one entry per call of
  \<open>db_connector.execute_query\<close>.
\<close>

record orchestrator =
  cache_schema :: bool
  include_analysis :: bool
  auto_optimize :: bool
  schema_context_cached :: bool
  cached_schema_context :: "string option"
  last_successful_workflow :: "workflow_result option"
  the_schema_agent :: schema_agent
  the_sql_agent :: sql_agent
  db_calls :: "string list"

definition create_workflow_result ::
  "string \<Rightarrow> string \<Rightarrow> (string \<times> step_result) list \<Rightarrow> workflow_result" where
  "create_workflow_result status message wlog =
     \<lparr>wf_status = status, wf_message = message, wf_sql_query = None, wf_results = [],
      wf_result_count = 0, wf_analysis = None, wf_insights = None, workflow_log = wlog\<rparr>"

definition ensure_schema_context ::
  "environment \<Rightarrow> orchestrator \<Rightarrow> string \<Rightarrow> string \<Rightarrow> string
     \<Rightarrow> context_result \<times> orchestrator" where
  "ensure_schema_context env orch database schema question =
     (if cache_schema orch \<and> schema_context_cached orch \<and> truthy (cached_schema_context orch)
      then (\<lparr>cr_status = ''success'', cr_message = [],
             cr_context = or_else (cached_schema_context orch) [], cr_source = ''cache'',
             cr_suggested_tables = []\<rparr>, orch)
      else
        let (context_result, agent) =
              get_context_for_query env (the_schema_agent orch) question database schema;
            orch = orch\<lparr>the_schema_agent := agent\<rparr>
        in if cr_status context_result = ''success'' then
             (context_result\<lparr>cr_message := [], cr_source := ''schema_agent''\<rparr>,
              if cache_schema orch
              then orch\<lparr>cached_schema_context := Some (cr_context context_result),
                        schema_context_cached := True\<rparr>
              else orch)
           else (context_result, orch))"

definition generate_sql_with_retries ::
  "environment \<Rightarrow> orchestrator \<Rightarrow> string \<Rightarrow> string \<Rightarrow> string
     \<Rightarrow> sql_workflow_result \<times> orchestrator" where
  "generate_sql_with_retries env orch question schema_context user_context =
     (let full_context =
            (if user_context \<noteq> []
             then schema_context @ [CHR 0x0A, CHR 0x0A] @ ''ADDITIONAL CONTEXT:'' @ [CHR 0x0A]
                  @ user_context
             else schema_context);
          (sql_result, agent) =
            complete_sql_workflow env (the_sql_agent orch) question full_context (auto_optimize orch)
      in (sql_result, orch\<lparr>the_sql_agent := agent\<rparr>))"

definition execute_sql_safely ::
  "environment \<Rightarrow> orchestrator \<Rightarrow> string \<Rightarrow> exec_result \<times> orchestrator" where
  "execute_sql_safely env orch sql_query =
     (let outcome = db_execute env (length (db_calls orch)) sql_query;
          orch = orch\<lparr>db_calls := db_calls orch @ [sql_query]\<rparr>
      in case outcome of
           Inr results \<Rightarrow>
             (\<lparr>ex_status = ''success'', ex_results = results, ex_result_count = length results,
               ex_error = [], ex_sql_query = []\<rparr>, orch)
         | Inl e \<Rightarrow>
             (\<lparr>ex_status = ''error'', ex_results = [], ex_result_count = 0, ex_error = e,
               ex_sql_query = sql_query\<rparr>, orch))"

definition attempt_sql_fix ::
  "environment \<Rightarrow> orchestrator \<Rightarrow> string \<Rightarrow> string \<Rightarrow> string \<Rightarrow> string
     \<Rightarrow> fix_result \<times> orchestrator" where
  "attempt_sql_fix env orch question context failed_sql error_message =
     (let (result, agent) = fix_sql env (the_sql_agent orch) question context failed_sql error_message
      in (result, orch\<lparr>the_sql_agent := agent\<rparr>))"

text \<open>Steps 4 and 5 of \<open>_complete_bi_workflow\<close>, after a successful execution.\<close>

definition finish_workflow ::
  "environment \<Rightarrow> orchestrator \<Rightarrow> string \<Rightarrow> string \<Rightarrow> string \<Rightarrow> exec_result
     \<Rightarrow> (string \<times> step_result) list \<Rightarrow> workflow_result \<times> orchestrator" where
  "finish_workflow env orch question user_context final_sql execution_result wlog =
     (let query_results = ex_results execution_result;
          analysis_result =
            (if include_analysis orch \<and> query_results \<noteq> []
             then Some (analyze env question query_results user_context) else None);
          wlog = (case analysis_result of
                   None \<Rightarrow> wlog | Some a \<Rightarrow> wlog @ [(''analysis'', AnalysisStep a)]);
          response =
            \<lparr>wf_status = ''success'', wf_message = ''BI workflow completed successfully'',
             wf_sql_query = Some final_sql, wf_results = query_results,
             wf_result_count = length query_results,
             wf_analysis = (case analysis_result of
                              None \<Rightarrow> None | Some a \<Rightarrow> comprehensive_results a),
             wf_insights = (case analysis_result of None \<Rightarrow> None | Some a \<Rightarrow> insights a),
             workflow_log = wlog\<rparr>
      in (response, orch\<lparr>last_successful_workflow := Some response\<rparr>))"

text \<open>Step 3: the execution, and on failure the repair attempt and the retry.\<close>

definition execute_with_repair ::
  "environment \<Rightarrow> orchestrator \<Rightarrow> string \<Rightarrow> string \<Rightarrow> string \<Rightarrow> string
     \<Rightarrow> (string \<times> step_result) list \<Rightarrow> workflow_result \<times> orchestrator" where
  "execute_with_repair env orch question schema_context user_context final_sql wlog =
     (let (execution_result, orch) = execute_sql_safely env orch final_sql;
          wlog = wlog @ [(''sql_execution'', ExecStep execution_result)]
      in if ex_status execution_result \<noteq> ''success'' then
           let (fix, orch) = attempt_sql_fix env orch question schema_context final_sql
                               (ex_error execution_result);
               wlog = wlog @ [(''sql_fix_attempt'', FixStep fix)]
           in if fix_status fix = ''success'' then
                let fixed_sql = (case corrected_sql fix of None \<Rightarrow> [] | Some q \<Rightarrow> q);
                    (execution_result, orch) = execute_sql_safely env orch fixed_sql;
                    wlog = wlog @ [(''sql_execution_retry'', ExecStep execution_result)]
                in if ex_status execution_result \<noteq> ''success''
                   then (create_workflow_result ''error'' ''SQL execution failed after retry'' wlog,
                         orch)
                   else finish_workflow env orch question user_context fixed_sql
                          execution_result wlog
              else (create_workflow_result ''error'' ''SQL execution failed after retry'' wlog, orch)
         else finish_workflow env orch question user_context final_sql execution_result wlog)"

text \<open>
  \<open>_complete_bi_workflow\<close>. Every call it makes catches its own exceptions, so the
  handler around the body is not reached.
\<close>

definition complete_bi_workflow ::
  "environment \<Rightarrow> orchestrator \<Rightarrow> string \<Rightarrow> string \<Rightarrow> string \<Rightarrow> string
     \<Rightarrow> workflow_result \<times> orchestrator" where
  "complete_bi_workflow env orch question user_context database schema =
     (if question = [] then
        (create_workflow_result ''error'' ''Question is required for BI workflow'' [], orch)
      else
        let (context_result, orch) = ensure_schema_context env orch database schema question;
            wlog = [(''schema_context'', ContextStep context_result)]
        in if cr_status context_result \<noteq> ''success'' then
             (create_workflow_result ''error'' ''Failed to get schema context'' wlog, orch)
           else
             let schema_context = cr_context context_result;
                 (sql_result, orch) =
                   generate_sql_with_retries env orch question schema_context user_context;
                 wlog = wlog @ [(''sql_generation'', SqlStep sql_result)]
             in if sw_status sql_result \<noteq> ''success'' then
                  (create_workflow_result ''error'' ''Failed to generate SQL'' wlog, orch)
                else
                  execute_with_repair env orch question schema_context user_context
                    (case sw_final_sql sql_result of None \<Rightarrow> [] | Some q \<Rightarrow> q) wlog)"

subsection \<open>Sample collaborators and a freshly constructed orchestrator\<close>

definition new_orchestrator :: orchestrator where
  "new_orchestrator =
     \<lparr>cache_schema = True, include_analysis = True, auto_optimize = True,
      schema_context_cached = False, cached_schema_context = None,
      last_successful_workflow = None,
      the_schema_agent = \<lparr>catalog_built = False, last_discovery = None, catalog = empty_layer\<rparr>,
      the_sql_agent = \<lparr>security_mode = ''strict'', optimization_level = ''moderate'',
                        last_generation = None, llm_calls = []\<rparr>,
      db_calls = []\<rparr>"

text \<open>
  A database with no tables whose executor rejects every query, and a language-model
  service that answers \<open>SELECT 1\<close> first and \<open>DROP TABLE users\<close> afterwards.
\<close>

definition failing_env :: environment where
  "failing_env =
     \<lparr>llm_api = (\<lambda>k question context current_date.
                   if k = 0 then Some ''SELECT 1'' else Some ''DROP TABLE users''),
      db_execute = (\<lambda>k sql. Inl ''Database query failed''),
      discover = (\<lambda>database schema. Inr []),
      foreign_keys = (\<lambda>schema. Inr []),
      save_catalog = (\<lambda>layer. None),
      set_order = (\<lambda>xs. xs),
      analyze = (\<lambda>question results context.
                   \<lparr>an_status = ''success'', comprehensive_results = None, insights = None\<rparr>),
      today = ''2024-01-01''\<rparr>"

text \<open>The same, with an executor that fails on its first call only.\<close>

definition retry_env :: environment where
  "retry_env =
     failing_env\<lparr>db_execute := (\<lambda>k sql. if k = 0 then Inl ''Database query failed'' else Inr [])\<rparr>"


text \<open>The same as \<open>failing_env\<close>, with a schema discovery that raises.\<close>

definition no_discovery_env :: environment where
  "no_discovery_env =
     failing_env\<lparr>discover := (\<lambda>database schema. Inl ''connection refused'')\<rparr>"


section \<open>Properties of the result cache\<close>





lemma keys_delete_cong:
  "map fst xs = map fst ys \<Longrightarrow> map fst (AList.delete k xs) = map fst (AList.delete k ys)"
  by (simp add: delete_keys)

lemma keys_update_cong:
  "map fst xs = map fst ys \<Longrightarrow> map fst (AList.update k v xs) = map fst (AList.update k w ys)"
  by (simp add: update_keys)

lemma cache_inv_delete:
  assumes "cache_inv self"
  shows "cache_inv (self\<lparr>cache := AList.delete k (cache self),
                    cache_timestamps := AList.delete k (cache_timestamps self)\<rparr>)"
proof -
  have e: "map fst (cache_timestamps self) = map fst (cache self)"
    and d: "distinct (map fst (cache self))" using assms by (auto simp: cache_inv_def)
  show ?thesis unfolding cache_inv_def using d by (simp add: delete_keys e distinct_removeAll)
qed

lemma cache_inv_store:
  assumes "cache_inv self"
  shows "cache_inv (store_entry k v now self)"
proof -
  have e: "map fst (cache_timestamps self) = map fst (cache self)"
    and d: "distinct (map fst (cache self))" using assms by (auto simp: cache_inv_def)
  show ?thesis unfolding cache_inv_def store_entry_def using d by (simp add: update_keys e)
qed

lemma get_cached_result_inv: "cache_inv self \<Longrightarrow> cache_inv (snd (get_cached_result md5 self now sql))"
  unfolding get_cached_result_def Let_def
  by (auto split: option.splits intro: cache_inv_delete)

lemma cache_result_inv: "cache_inv self \<Longrightarrow> cache_inv (snd (cache_result md5 self now sql result))"
  unfolding cache_result_def Let_def
  by (auto split: sum.splits intro: cache_inv_delete cache_inv_store)

lemma get_cached_result_fields:
  "max_cache_size (snd (get_cached_result md5 self now sql)) = max_cache_size self"
  "ttl_seconds (snd (get_cached_result md5 self now sql)) = ttl_seconds self"
  "length (cache (snd (get_cached_result md5 self now sql))) \<le> length (cache self)"
  unfolding get_cached_result_def Let_def
  by (auto split: option.splits simp: length_delete_le)

lemma cache_result_fields:
  "max_cache_size (snd (cache_result md5 self now sql result)) = max_cache_size self"
  "ttl_seconds (snd (cache_result md5 self now sql result)) = ttl_seconds self"
  unfolding cache_result_def Let_def store_entry_def
  by (auto split: sum.splits)

lemma length_delete_mem:
  "map_of xs k \<noteq> None \<Longrightarrow> distinct (map fst xs) \<Longrightarrow> Suc (length (AList.delete k xs)) = length xs"
proof (induction xs)
  case Nil then show ?case by simp
next
  case (Cons p ps)
  show ?case
  proof (cases "fst p = k")
    case True
    then have "k \<notin> fst ` set ps" using Cons.prems by auto
    then have "AList.delete k ps = ps" by (simp add: delete_id)
    then show ?thesis using True by (cases p) (simp add: )
  next
    case False
    then show ?thesis using Cons by (cases p) auto
  qed
qed

lemma length_update_le: "length (AList.update k v xs) \<le> Suc (length xs)"
  by (induction xs) auto

lemma cache_result_bound:
  assumes "cache_inv self" "0 \<le> max_cache_size self" "int (length (cache self)) \<le> max_cache_size self"
  shows "int (length (cache (snd (cache_result md5 self now sql result)))) \<le> max_cache_size self"
proof (cases "int (length (cache self)) \<ge> max_cache_size self")
  case False
  then have "int (length (cache (snd (cache_result md5 self now sql result)))) \<le> int (Suc (length (cache self)))"
    unfolding cache_result_def Let_def store_entry_def using length_update_le[of "get_cache_key md5 sql" result "cache self"] by simp 
  then show ?thesis using False by simp
next
  case True
  show ?thesis
  proof (cases "oldest_key (cache_timestamps self)")
    case (Inl e) then show ?thesis using True assms by (simp add: cache_result_def)
  next
    case (Inr k)
    show ?thesis
    proof (cases "map_of (cache self) k = None")
      case True2: True then show ?thesis using True Inr assms by (simp add: cache_result_def)
    next
      case False
      have d: "distinct (map fst (cache self))" using assms(1) by (auto simp: cache_inv_def)
      have "Suc (length (AList.delete k (cache self))) = length (cache self)"
        using length_delete_mem[OF False d] .
      moreover have "length (AList.update (get_cache_key md5 sql) result (AList.delete k (cache self)))
            \<le> Suc (length (AList.delete k (cache self)))" by (rule length_update_le)
      ultimately show ?thesis using True Inr False assms
        by (simp add: cache_result_def store_entry_def)
    qed
  qed
qed

lemma apply_cache_op_ok: "0 \<le> m \<Longrightarrow> cache_ok m self \<Longrightarrow> cache_ok m (apply_cache_op md5 self op)"
proof (cases op)
  case (Lookup sql now)
  assume "0 \<le> m" "cache_ok m self"
  then show ?thesis using Lookup get_cached_result_inv[of self md5 now sql]
      get_cached_result_fields(1,3)[of md5 self now sql]
    by (simp add: cache_ok_def)
next
  case (Insert sql result now)
  assume "0 \<le> m" "cache_ok m self"
  then show ?thesis using Insert cache_result_inv[of self md5 now sql result]
      cache_result_fields(1)[of md5 self now sql result] cache_result_bound[of self md5 now sql result]
    by (simp add: cache_ok_def)
qed

lemma run_cache_ops_ok: "0 \<le> m \<Longrightarrow> cache_ok m self \<Longrightarrow> cache_ok m (run_cache_ops md5 self ops)"
  unfolding run_cache_ops_def
  by (induction ops arbitrary: self) (auto intro: apply_cache_op_ok)



text \<open>
  Claim C10. Starting from a freshly constructed cache with a non-negative capacity,
  after every sequence of lookups and inserts (with arbitrary clock readings) the entry
  dictionary and the timestamp dictionary hold the same keys, each key once, and the
  number of entries does not exceed \<open>max_cache_size\<close>.
\<close>

theorem C10_cache_keys_agree_and_bounded:
  assumes "0 \<le> m"
  shows "let self = run_cache_ops md5 (init_cache m ttl) ops in
           set (map fst (cache self)) = set (map fst (cache_timestamps self))
         \<and> distinct (map fst (cache self)) \<and> distinct (map fst (cache_timestamps self))
         \<and> int (length (cache self)) \<le> m \<and> max_cache_size self = m"
proof -
  let ?s = "run_cache_ops md5 (init_cache m ttl) ops"
  have "cache_ok m (init_cache m ttl)"
    using assms by (simp add: cache_ok_def cache_inv_def init_cache_def)
  then have "cache_ok m ?s" using assms by (rule run_cache_ops_ok[rotated])
  then have ok: "cache_inv ?s" "max_cache_size ?s = m" "int (length (cache ?s)) \<le> m"
    by (simp_all add: cache_ok_def)
  from ok(1) have e: "map fst (cache_timestamps ?s) = map fst (cache ?s)"
    and d: "distinct (map fst (cache ?s))" by (auto simp: cache_inv_def)
  show ?thesis unfolding Let_def using ok(2,3) d by (simp add: e)
qed

theorem C10_cache_keys_agree_and_bounded_witness:
  "(0::int) \<le> 1 \<and>
   (let self = run_cache_ops plain_digest (init_cache 1 3600)
                 [Insert ''SELECT 1'' [] 0, Insert ''select  2'' [] 5, Lookup ''select 1'' 7]
    in set (map fst (cache self)) = set (map fst (cache_timestamps self))
     \<and> distinct (map fst (cache self)) \<and> distinct (map fst (cache_timestamps self))
     \<and> int (length (cache self)) \<le> 1 \<and> max_cache_size self = 1)"
  using C10_cache_keys_agree_and_bounded [of 1 plain_digest 3600
      "[Insert ''SELECT 1'' [] 0, Insert ''select  2'' [] 5, Lookup ''select 1'' 7]"]
  by simp

text \<open>
  Claim C5, as the code has it. A lookup of an entry whose age exceeds the TTL returns
  absent and deletes the entry and its timestamp in the same call; every other entry is
  left as it was.
\<close>

theorem C5_expired_lookup_deletes:
  assumes "map_of (cache self) (get_cache_key md5 sql) = Some v"
    and "map_of (cache_timestamps self) (get_cache_key md5 sql) = Some ts"
    and "now - ts > ttl_seconds self"
  shows "fst (get_cached_result md5 self now sql) = Inr None
       \<and> map_of (cache (snd (get_cached_result md5 self now sql))) (get_cache_key md5 sql) = None
       \<and> map_of (cache_timestamps (snd (get_cached_result md5 self now sql)))
             (get_cache_key md5 sql) = None
       \<and> (\<forall>k. k \<noteq> get_cache_key md5 sql \<longrightarrow>
              map_of (cache (snd (get_cached_result md5 self now sql))) k = map_of (cache self) k
            \<and> map_of (cache_timestamps (snd (get_cached_result md5 self now sql))) k
                = map_of (cache_timestamps self) k)"
  using assms by (simp add: get_cached_result_def Let_def delete_conv)

theorem C5_expired_lookup_deletes_witness:
  "fst (get_cached_result plain_digest
          \<lparr>cache = [(''select 1'', [])], cache_timestamps = [(''select 1'', 0)],
           max_cache_size = 1000, ttl_seconds = 3600\<rparr> 3601 ''SELECT 1'') = Inr None"
proof -
  let ?self = "\<lparr>cache = [(''select 1'', [])], cache_timestamps = [(''select 1'', 0)],
           max_cache_size = 1000, ttl_seconds = 3600\<rparr>"
  have k: "get_cache_key plain_digest ''SELECT 1'' = ''select 1''"
    by code_simp
  have "map_of (cache ?self) (get_cache_key plain_digest ''SELECT 1'') = Some []"
    and "map_of (cache_timestamps ?self) (get_cache_key plain_digest ''SELECT 1'') = Some 0"
    and "3601 - 0 > ttl_seconds ?self"
    by (simp_all add: k)
  from C5_expired_lookup_deletes [OF this] show ?thesis by simp
qed

text \<open>
  Claim C5 as stated fails: after an entry is stored at time 0 and looked up at time
  3601 with a TTL of 3600, the lookup returns absent and both dictionaries are empty;
  the expired entry does not survive the lookup.
\<close>

theorem C5_expired_entry_gone_after_lookup:
  "map_of (cache (snd (cache_result plain_digest (init_cache 1000 3600) 0 ''SELECT 1'' [])))
      (get_cache_key plain_digest ''SELECT 1'') = Some []
   \<and> get_cached_result plain_digest
        (snd (cache_result plain_digest (init_cache 1000 3600) 0 ''SELECT 1'' []))
        3601 ''SELECT 1''
     = (Inr None, init_cache 1000 3600)"
proof -
  have k: "get_cache_key plain_digest ''SELECT 1'' = ''select 1''" by code_simp
  show ?thesis
    by (simp add: cache_result_def get_cached_result_def init_cache_def store_entry_def k
        Let_def)
qed




section \<open>Properties of the complexity classifiers\<close>

text \<open>
  Claim C9, as the code has it. \<open>_determine_complexity_level\<close> classifies the three
  questions of the specification as simple, medium and advanced, and in general: an
  advanced keyword in the lower-cased question gives \<open>advanced\<close>; else a complex keyword
  gives \<open>medium\<close>; else a simple keyword gives \<open>simple\<close>, whatever the number of words
  or conjunctions; else the result is \<open>medium\<close>.
\<close>

theorem C9_determine_complexity_level:
  "determine_complexity_level ''total sales'' = ''simple''
   \<and> determine_complexity_level ''compare year over year growth by region'' = ''medium''
   \<and> determine_complexity_level ''cohort retention forecasting'' = ''advanced''
   \<and> (any_in advanced_indicators (lower q) \<longrightarrow> determine_complexity_level q = ''advanced'')
   \<and> (\<not> any_in advanced_indicators (lower q) \<and> any_in complex_indicators (lower q)
        \<longrightarrow> determine_complexity_level q = ''medium'')
   \<and> (\<not> any_in advanced_indicators (lower q) \<and> \<not> any_in complex_indicators (lower q)
        \<and> any_in simple_indicators (lower q) \<longrightarrow> determine_complexity_level q = ''simple'')
   \<and> (\<not> any_in advanced_indicators (lower q) \<and> \<not> any_in complex_indicators (lower q)
        \<and> \<not> any_in simple_indicators (lower q) \<longrightarrow> determine_complexity_level q = ''medium'')"
proof -
  have e1: "determine_complexity_level ''total sales'' = ''simple''" by code_simp
  have e2: "determine_complexity_level ''compare year over year growth by region'' = ''medium''"
    by code_simp
  have e3: "determine_complexity_level ''cohort retention forecasting'' = ''advanced''"
    by code_simp
  show ?thesis using e1 e2 e3 by (simp add: determine_complexity_level_def)
qed

theorem C9_determine_complexity_level_witness:
  "any_in simple_indicators (lower ''what is the average order value'')
   \<and> determine_complexity_level ''what is the average order value'' = ''simple''"
proof -
  have a: "\<not> any_in advanced_indicators (lower ''what is the average order value'')"
    and c: "\<not> any_in complex_indicators (lower ''what is the average order value'')"
    and s: "any_in simple_indicators (lower ''what is the average order value'')"
    by code_simp+
  from C9_determine_complexity_level [of "''what is the average order value''"] a c s
  show ?thesis by blast
qed

text \<open>
  Claim C9 as stated fails. \<open>_determine_complexity_level\<close> answers \<open>simple\<close> for a
  question with a simple keyword and two conjunctions, and for one with a simple keyword
  and eleven words, where the stated rule gives \<open>medium\<close>. The cost router's
  \<open>assess_complexity\<close> has no advanced tier: it answers \<open>complex\<close> for the cohort
  question and \<open>moderate\<close> for the year-over-year question.
\<close>

theorem C9_rule_differs_from_code:
  "determine_complexity_level ''count apples and pears and plums'' = ''simple''
   \<and> specified_complexity ''count apples and pears and plums'' = ''medium''
   \<and> determine_complexity_level ''total of all sales in the last ten days of june'' = ''simple''
   \<and> specified_complexity ''total of all sales in the last ten days of june'' = ''medium''
   \<and> length (split ''total of all sales in the last ten days of june'') = 11
   \<and> assess_complexity ''cohort retention forecasting'' 0 = ''complex''
   \<and> assess_complexity ''compare year over year growth by region'' 0 = ''moderate''"
  by code_simp

section \<open>Properties of the security validator\<close>

lemma of_char_less_256: "(of_char c :: nat) < 256"
  using of_char_mod_256 [of c, where ?'a = nat] by (metis mod_less_divisor zero_less_numeral)

lemma upper_chars_nonempty: "upper_chars c \<noteq> []"
  by (simp add: upper_chars_def Let_def)

lemma small_letter_is_word:
  "(97 \<le> n \<and> n \<le> 122) \<or> (224 \<le> n \<and> n \<le> 246) \<or> (248 \<le> n \<and> n \<le> 254)
   \<Longrightarrow> (of_char c :: nat) = n \<Longrightarrow> is_word c"
  unfolding is_word_def Let_def by presburger

lemma capital_letter_is_word:
  "(97 \<le> n \<and> n \<le> 122) \<or> (224 \<le> n \<and> n \<le> 246) \<or> (248 \<le> n \<and> n \<le> 254)
   \<Longrightarrow> (of_char d :: nat) = n - 32 \<Longrightarrow> is_word d"
  unfolding is_word_def Let_def by presburger

text \<open>Upper-casing keeps the word class: a character and its upper-case form agree.\<close>

lemma is_word_upper_chars:
  assumes "d \<in> set (upper_chars c)"
  shows "is_word d = is_word c"
proof -
  define n where "n = (of_char c :: nat)"
  have lt: "n < 256" unfolding n_def by (rule of_char_less_256)
  show ?thesis
  proof (cases "(97 \<le> n \<and> n \<le> 122) \<or> (224 \<le> n \<and> n \<le> 246) \<or> (248 \<le> n \<and> n \<le> 254)")
    case True
    then have "d = char_of (n - 32)"
      using assms by (auto simp: upper_chars_def n_def Let_def)
    then have e: "(of_char d :: nat) = n - 32" using lt by (simp add: of_char_of)
    have "is_word d" using True e by (rule capital_letter_is_word)
    moreover have "is_word c" using True n_def [symmetric] by (rule small_letter_is_word)
    ultimately show ?thesis by simp
  next
    case False
    show ?thesis
    proof (cases "n = 223")
      case True
      then have "d = CHR ''S''" using assms by (auto simp: upper_chars_def n_def Let_def)
      then have "is_word d" by (simp add: is_word_def)
      moreover have "is_word c" using True by (simp add: is_word_def n_def)
      ultimately show ?thesis by simp
    next
      case n: False
      from False n have "d = c" using assms by (auto simp: upper_chars_def n_def Let_def)
      then show ?thesis by simp
    qed
  qed
qed

lemma is_space_not_word: "is_space c \<Longrightarrow> \<not> is_word c"
  unfolding is_space_def is_word_def Let_def by arith

lemma upper_append: "upper (xs @ ys) = upper xs @ upper ys"
  by (simp add: upper_def)

lemma upper_Nil_iff: "upper s = [] \<longleftrightarrow> s = []"
  by (cases s) (simp_all add: upper_def upper_chars_nonempty)

lemma last_upper: "s \<noteq> [] \<Longrightarrow> last (upper s) \<in> set (upper_chars (last s))"
proof -
  assume "s \<noteq> []"
  then have "s = butlast s @ [last s]" by simp
  then have "upper s = upper (butlast s) @ upper_chars (last s)"
    by (metis upper_append upper_def concat.simps list.simps(8,9) append_Nil2)
  then have "last (upper s) = last (upper_chars (last s))"
    by (simp add: upper_chars_nonempty)
  then show ?thesis using upper_chars_nonempty [of "last s"] by simp
qed

lemma hd_upper: "s \<noteq> [] \<Longrightarrow> hd (upper s) \<in> set (upper_chars (hd s))"
  by (cases s) (simp_all add: upper_def upper_chars_nonempty)

lemma search_wordI: "i \<le> length s \<Longrightarrow> match_word_at keyword s i \<Longrightarrow> search_word keyword s"
proof -
  assume "i \<le> length s" and m: "match_word_at keyword s i"
  then have "i \<in> set [0..<Suc (length s)]" by auto
  then show ?thesis unfolding search_word_def list_ex_iff using m by blast
qed

lemma token_match:
  assumes "keyword \<noteq> []" and "is_word (hd keyword)" and "is_word (last keyword)"
    and "pre = [] \<or> \<not> is_word (last pre)" and "post = [] \<or> \<not> is_word (hd post)"
  shows "match_word_at keyword (pre @ keyword @ post) (length pre)"
proof -
  let ?s = "pre @ keyword @ post"
  have at: "word_at ?s (length pre)"
    using assms(1,2) by (simp add: word_at_def nth_append hd_conv_nth)
  have before: "\<not> (0 < length pre \<and> word_at ?s (length pre - 1))"
    using assms(4) by (auto simp: word_at_def nth_append last_conv_nth)
  have b1: "word_boundary ?s (length pre)"
    using at before by (simp add: word_boundary_def)
  have pos: "length keyword > 0" using assms(1) by simp
  then have idx: "length pre + length keyword - 1 = length pre + (length keyword - 1)" by arith
  have "?s ! (length pre + (length keyword - 1)) = keyword ! (length keyword - 1)"
    using pos by (simp add: nth_append)
  moreover have "last keyword = keyword ! (length keyword - 1)"
    using assms(1) by (rule last_conv_nth)
  ultimately have lk: "?s ! (length pre + length keyword - 1) = last keyword"
    using idx by simp
  note lk
  moreover have "length pre + length keyword - 1 < length ?s"
    using assms(1) by (cases keyword) auto
  ultimately have last_w: "0 < length pre + length keyword
      \<and> word_at ?s (length pre + length keyword - 1)"
    using assms(3) pos unfolding word_at_def by simp
  have "?s ! (length pre + length keyword) = hd post" if "post \<noteq> []"
    using that by (simp add: nth_append hd_conv_nth)
  then have after: "\<not> word_at ?s (length pre + length keyword)"
    using assms(5) by (cases "post = []") (auto simp: word_at_def)
  have b2: "word_boundary ?s (length pre + length keyword)"
    using last_w after by (simp add: word_boundary_def)
  show ?thesis using b1 b2 by (simp add: match_word_at_def)
qed

lemma dangerous_keywords_words:
  "keyword \<in> set dangerous_keywords \<Longrightarrow>
     keyword \<noteq> [] \<and> is_word (hd keyword) \<and> is_word (last keyword)"
  by (auto simp: dangerous_keywords_def is_word_def)

lemma standalone_token_found:
  assumes "keyword \<in> set dangerous_keywords" and "sql_query = pre @ token @ post"
    and "upper token = keyword"
    and "pre = [] \<or> \<not> is_word (last pre)" and "post = [] \<or> \<not> is_word (hd post)"
  shows "keyword \<in> set (check_dangerous_operations sql_query)"
proof -
  have u: "upper sql_query = upper pre @ keyword @ upper post"
    using assms(2,3) by (simp add: upper_append)
  have p: "upper pre = [] \<or> \<not> is_word (last (upper pre))"
    using assms(4) last_upper [of pre] is_word_upper_chars [of "last (upper pre)" "last pre"]
    by (auto simp: upper_Nil_iff)
  have q: "upper post = [] \<or> \<not> is_word (hd (upper post))"
    using assms(5) hd_upper [of post] is_word_upper_chars [of "hd (upper post)" "hd post"]
    by (auto simp: upper_Nil_iff)
  have w: "keyword \<noteq> []" "is_word (hd keyword)" "is_word (last keyword)"
    using dangerous_keywords_words [OF assms(1)] by simp_all
  have "match_word_at keyword (upper sql_query) (length (upper pre))"
    unfolding u by (rule token_match [OF w p q])
  moreover have "length (upper pre) \<le> length (upper sql_query)" by (simp add: u)
  ultimately have "search_word keyword (upper sql_query)" by (rule search_wordI [rotated])
  then show ?thesis using assms(1) by (simp add: check_dangerous_operations_def)
qed

text \<open>
  A letter with an accent is a word character: next to a keyword it leaves no word
  boundary, and the search does not report the keyword.
\<close>

lemma accented_neighbour_hides_keyword:
  "check_dangerous_operations (CHR 0xE9 # ''DROP TABLE t'') = []
   \<and> check_dangerous_operations (CHR 0xE9 # '' DROP TABLE t'') = [''DROP'']"
  by code_simp

text \<open>
  Claim C1. Let a query contain, in any letter case, one of the validator's dangerous
  keywords as a standalone token: the characters next to it, if any, are not word
  characters (whitespace in particular, see \<open>is_space_not_word\<close>). Then the validator's
  result has \<open>is_secure = False\<close> and lists the keyword in \<open>blocked_operations\<close>.
\<close>

theorem C1_standalone_keyword_blocked:
  assumes "keyword \<in> set dangerous_keywords" and "sql_query = pre @ token @ post"
    and "upper token = keyword"
    and "pre = [] \<or> \<not> is_word (last pre)" and "post = [] \<or> \<not> is_word (hd post)"
  shows "\<not> is_secure (security_validator_execute sql_query strict_mode)
       \<and> keyword \<in> set (blocked_operations (security_validator_execute sql_query strict_mode))"
proof -
  have "keyword \<in> set (check_dangerous_operations sql_query)"
    using assms by (rule standalone_token_found)
  then show ?thesis by (auto simp: security_validator_execute_def Let_def)
qed

theorem C1_standalone_keyword_blocked_witness:
  "\<not> is_secure (security_validator_execute (''select 1;  '' @ ''Drop'' @ [CHR 0x09] @ ''table t'') True)
   \<and> ''DROP'' \<in> set (blocked_operations
        (security_validator_execute (''select 1;  '' @ ''Drop'' @ [CHR 0x09] @ ''table t'') True))"
proof -
  have k: "''DROP'' \<in> set dangerous_keywords" by (simp add: dangerous_keywords_def)
  have u: "upper ''Drop'' = ''DROP''" by code_simp
  have p: "''select 1;  '' = [] \<or> \<not> is_word (last ''select 1;  '')"
    by (simp add: is_word_def)
  have q: "[CHR 0x09] @ ''table t'' = [] \<or> \<not> is_word (hd ([CHR 0x09] @ ''table t''))"
    by (simp add: is_word_def)
  show ?thesis
    by (rule C1_standalone_keyword_blocked [OF k _ u p q]) simp
qed

section \<open>Properties of relationship inference\<close>








text \<open>
  Claim C8. For the two tables \<open>ORDERS\<close>, whose only column is a non-primary-key
  \<open>customer_id\<close>, and \<open>CUSTOMERS\<close>, whose only column is \<open>id\<close>, in either order and
  whatever the other attributes are, inference yields exactly one relationship:
  \<open>ORDERS.customer_id -> CUSTOMERS.id\<close>, many-to-one, not enforced. The inference of the
  relationship mapper tool yields the same.
\<close>

theorem C8_orders_customers_one_relationship:
  assumes "tbl_name orders = ''ORDERS''" and "columns orders = [fk]"
    and "col_name fk = ''customer_id''" and "\<not> is_primary_key fk"
    and "tbl_name customers = ''CUSTOMERS''" and "columns customers = [pk]"
    and "col_name pk = ''id''"
  shows "fst (infer_relationships [orders, customers]) =
           [\<lparr>source_table = ''ORDERS'', target_table = ''CUSTOMERS'',
             source_column = ''customer_id'', target_column = ''id'',
             relationship_type = MANY_TO_ONE, rel_name = None,
             rel_description = Some ''Inferred from naming pattern: customer_id'',
             is_enforced = False\<rparr>]
       \<and> fst (infer_relationships [customers, orders]) = fst (infer_relationships [orders, customers])
       \<and> infer_relationships_from_naming [orders, customers]
           = fst (infer_relationships [orders, customers])
       \<and> infer_relationships_from_naming [customers, orders]
           = fst (infer_relationships [orders, customers])"
proof -
  have u1: "upper ''customer_id'' = ''CUSTOMER_ID''" "upper ''id'' = ''ID''"
    "upper ''customer'' = ''CUSTOMER''" "lower ''customer_id'' = ''customer_id''"
    "lower ''id'' = ''id''" "lower ''CUSTOMERS'' = ''customers''"
    by code_simp+
  have tv: "target_variations ''customer'' = [Some ''CUSTOMER'', Some ''CUSTOMERS'', None,
      Some ''CUSTOMER_DIM'', Some ''CUSTOMER_MASTER'']"
    "naming_variations ''customer'' = [Some ''CUSTOMER'', Some ''CUSTOMERS'', None,
      Some ''CUSTOMER_DIM'', Some ''CUSTOMER_FACT'']"
    by code_simp+
  have fk: "infer_column (table_by_name [orders, customers]) orders fk
      = Some (inferred orders fk customers pk)"
    "infer_column (table_by_name [customers, orders]) orders fk
      = Some (inferred orders fk customers pk)"
    "infer_column_from_naming (table_by_name [orders, customers]) orders fk
      = Some (inferred orders fk customers pk)"
    "infer_column_from_naming (table_by_name [customers, orders]) orders fk
      = Some (inferred orders fk customers pk)"
    using assms
    by (simp_all add: infer_column_def infer_column_from_naming_def u1 tv ends_with_def
        table_by_name_def find_target_column_def is_target_column_def is_target_pk_def)
  have pk: "infer_column tbn customers pk = None" "infer_column_from_naming tbn customers pk = None"
    for tbn
    using assms by (simp_all add: infer_column_def infer_column_from_naming_def u1 ends_with_def)
  have r: "inferred orders fk customers pk =
           \<lparr>source_table = ''ORDERS'', target_table = ''CUSTOMERS'',
             source_column = ''customer_id'', target_column = ''id'',
             relationship_type = MANY_TO_ONE, rel_name = None,
             rel_description = Some ''Inferred from naming pattern: customer_id'',
             is_enforced = False\<rparr>"
    using assms by (simp add: inferred_def)
  show ?thesis
    using assms(2,6) fk pk
    by (simp add: infer_relationships_def infer_relationships_from_naming_def Let_def
        map_filter_def r)
qed

theorem C8_orders_customers_one_relationship_witness:
  "fst (infer_relationships [sample_orders, sample_customers]) =
           [\<lparr>source_table = ''ORDERS'', target_table = ''CUSTOMERS'',
             source_column = ''customer_id'', target_column = ''id'',
             relationship_type = MANY_TO_ONE, rel_name = None,
             rel_description = Some ''Inferred from naming pattern: customer_id'',
             is_enforced = False\<rparr>]"
proof -
  have "tbl_name sample_orders = ''ORDERS''" and "columns sample_orders = [customer_id_column]"
    and "col_name customer_id_column = ''customer_id''" and "\<not> is_primary_key customer_id_column"
    and "tbl_name sample_customers = ''CUSTOMERS''"
    and "columns sample_customers = [new_column ''id'' ''NUMBER'' False]"
    and "col_name (new_column ''id'' ''NUMBER'' False) = ''id''"
    by (simp_all add: sample_orders_def sample_customers_def customer_id_column_def
        new_table_def new_column_def)
  from C8_orders_customers_one_relationship [OF this] show ?thesis by blast
qed

section \<open>Properties of the workflow\<close>

lemma ensure_schema_context_calls:
  "db_calls (snd (ensure_schema_context env orch database schema question)) = db_calls orch"
  "the_sql_agent (snd (ensure_schema_context env orch database schema question))
     = the_sql_agent orch"
  by (auto simp: ensure_schema_context_def Let_def split: prod.splits)





lemma create_workflow_result_simps:
  "wf_status (create_workflow_result status message wlog) = status"
  "wf_message (create_workflow_result status message wlog) = message"
  "workflow_log (create_workflow_result status message wlog) = wlog"
  by (simp_all add: create_workflow_result_def)





text \<open>
  Claim C3, evaluated on the code. The first execution fails and the repair
  collaborator answers \<open>DROP TABLE users\<close>, which the validator marks as not secure.
  The workflow submits it to the query executor all the same, and when the executor
  accepts it the run reports success with it as the final query.
\<close>

theorem C3_insecure_repair_is_executed:
  "\<not> is_secure (security_validator_execute ''DROP TABLE users'' True)
   \<and> db_calls (snd (complete_bi_workflow retry_env new_orchestrator ''total sales'' []
                      ''DB'' ''PUBLIC'')) = [''SELECT 1'', ''DROP TABLE users'']
   \<and> wf_status (fst (complete_bi_workflow retry_env new_orchestrator ''total sales'' []
                      ''DB'' ''PUBLIC'')) = ''success''
   \<and> wf_sql_query (fst (complete_bi_workflow retry_env new_orchestrator ''total sales'' []
                      ''DB'' ''PUBLIC'')) = Some ''DROP TABLE users''"
  by code_simp

lemma join_nonempty: "p \<in> set parts \<Longrightarrow> p \<noteq> [] \<Longrightarrow> join sep parts \<noteq> []"
  by (induction sep parts rule: join.induct) auto

lemma layer_context_nonempty: "layer_context_for_llm layer \<noteq> []"
proof -
  have "''=== DATABASE SCHEMA ==='' \<in> set (context_parts layer)"
    by (simp add: context_parts_def)
  then show ?thesis unfolding layer_context_for_llm_def by (rule join_nonempty) simp
qed

lemma catalog_tool_get_context_nonempty: "tc_context (catalog_tool_get_context env layer query_text) \<noteq> []"
  by (simp add: catalog_tool_get_context_def get_context_for_llm_def Let_def layer_context_nonempty)

lemma built_context_success:
  assumes "catalog_built agent" and "query_text \<noteq> []"
  shows "cr_status (fst (get_context_for_query env agent query_text database schema)) = ''success''
       \<and> cr_context (fst (get_context_for_query env agent query_text database schema)) \<noteq> []"
  using assms by (simp add: get_context_for_query_def Let_def catalog_tool_get_context_nonempty)

lemma ensure_built_context_success:
  assumes "catalog_built (the_schema_agent orch)" and "question \<noteq> []"
  shows "cr_status (fst (ensure_schema_context env orch database schema question)) = ''success''
       \<and> cr_context (fst (ensure_schema_context env orch database schema question)) \<noteq> []"
proof (cases "cache_schema orch \<and> schema_context_cached orch \<and> truthy (cached_schema_context orch)")
  case True
  then show ?thesis
    by (auto simp: ensure_schema_context_def truthy_def or_else_def split: option.splits)
next
  case False
  obtain c a where s: "get_context_for_query env (the_schema_agent orch) question database schema
      = (c, a)"
    by (cases "get_context_for_query env (the_schema_agent orch) question database schema")
  have "cr_status c = ''success'' \<and> cr_context c \<noteq> []"
    using built_context_success [OF assms, of env database schema] s by simp
  then show ?thesis using False s by (auto simp: ensure_schema_context_def Let_def)
qed

lemma generate_sql_calls:
  assumes "question \<noteq> []" and "context \<noteq> []"
  shows "llm_calls (snd (generate_sql env agent question context))
       = llm_calls agent @ [(question, context)]"
  using assms by (simp add: generate_sql_def Let_def split: option.splits)

lemma complete_sql_workflow_calls:
  assumes "question \<noteq> []" and "context \<noteq> []"
  shows "llm_calls (snd (complete_sql_workflow env agent question context optimize))
       = llm_calls agent @ [(question, context)]"
proof -
  obtain g a where g: "generate_sql env agent question context = (g, a)"
    by (cases "generate_sql env agent question context")
  have "llm_calls a = llm_calls agent @ [(question, context)]"
    using generate_sql_calls [OF assms, of env agent] g by simp
  then show ?thesis using g by (simp add: complete_sql_workflow_def Let_def)
qed

lemma fix_sql_calls:
  "\<exists>rest. llm_calls (snd (fix_sql env agent question context failed_sql error_message))
       = llm_calls agent @ rest"
  by (simp add: fix_sql_def Let_def split: option.splits)

lemma execute_sql_safely_agent:
  "the_sql_agent (snd (execute_sql_safely env orch sql)) = the_sql_agent orch"
  by (simp add: execute_sql_safely_def Let_def split: sum.splits)

lemma finish_workflow_agent:
  "the_sql_agent (snd (finish_workflow env orch question user_context sql x wlog))
     = the_sql_agent orch"
  by (simp add: finish_workflow_def Let_def)

lemma attempt_sql_fix_calls:
  "\<exists>rest. llm_calls (the_sql_agent (snd (attempt_sql_fix env orch question context failed_sql
       error_message))) = llm_calls (the_sql_agent orch) @ rest"
proof -
  obtain r a where f: "fix_sql env (the_sql_agent orch) question context failed_sql error_message
      = (r, a)"
    by (cases "fix_sql env (the_sql_agent orch) question context failed_sql error_message")
  obtain rest where "llm_calls a = llm_calls (the_sql_agent orch) @ rest"
    using fix_sql_calls [of env "the_sql_agent orch" question "context" failed_sql error_message] f
    by auto
  then show ?thesis using f by (auto simp: attempt_sql_fix_def)
qed

lemma execute_with_repair_calls:
  "\<exists>rest. llm_calls (the_sql_agent (snd (execute_with_repair env orch question schema_context
       user_context sql wlog))) = llm_calls (the_sql_agent orch) @ rest"
proof -
  obtain x1 o1 where e1: "execute_sql_safely env orch sql = (x1, o1)"
    by (cases "execute_sql_safely env orch sql")
  have a1: "the_sql_agent o1 = the_sql_agent orch"
    using execute_sql_safely_agent [of env orch sql] e1 by simp
  obtain fx o2 where f: "attempt_sql_fix env o1 question schema_context sql (ex_error x1) = (fx, o2)"
    by (cases "attempt_sql_fix env o1 question schema_context sql (ex_error x1)")
  obtain rest where a2: "llm_calls (the_sql_agent o2) = llm_calls (the_sql_agent orch) @ rest"
    using attempt_sql_fix_calls [of env o1 question schema_context sql "ex_error x1"] f a1 by auto
  let ?fixed = "case corrected_sql fx of None \<Rightarrow> [] | Some q \<Rightarrow> q"
  obtain x2 o3 where e2: "execute_sql_safely env o2 ?fixed = (x2, o3)"
    by (cases "execute_sql_safely env o2 ?fixed")
  have a3: "the_sql_agent o3 = the_sql_agent o2"
    using execute_sql_safely_agent [of env o2 ?fixed] e2 by simp
  show ?thesis
    using e1 a1 f a2 e2 a3
    by (auto simp: execute_with_repair_def Let_def finish_workflow_agent
        create_workflow_result_def)
qed

text \<open>
  Claim C4, as the code has it. When schema-context resolution does not succeed, the
  run ends with status \<open>error\<close> at the \<open>schema_context\<close> step, and neither the
  language-model service nor the query executor is called. A catalog that has been
  built, empty or not, does not make it fail: context resolution then succeeds with a
  non-empty context and SQL synthesis is invoked with the question.
\<close>

theorem C4_context_failure_stops_before_synthesis:
  assumes "question \<noteq> []"
  shows "(cr_status (fst (ensure_schema_context env orch database schema question))
            \<noteq> ''success'' \<longrightarrow>
          (\<exists>r orch'.
             complete_bi_workflow env orch question user_context database schema = (r, orch')
           \<and> wf_status r = ''error'' \<and> wf_message r = ''Failed to get schema context''
           \<and> map fst (workflow_log r) = [''schema_context'']
           \<and> llm_calls (the_sql_agent orch') = llm_calls (the_sql_agent orch)
           \<and> db_calls orch' = db_calls orch))
       \<and> (catalog_built (the_schema_agent orch) \<longrightarrow>
          (\<exists>r orch' context rest.
             complete_bi_workflow env orch question user_context database schema = (r, orch')
           \<and> cr_status (fst (ensure_schema_context env orch database schema question))
               = ''success''
           \<and> llm_calls (the_sql_agent orch')
               = llm_calls (the_sql_agent orch) @ (question, context) # rest))"
proof (intro conjI impI)
  assume fail: "cr_status (fst (ensure_schema_context env orch database schema question))
            \<noteq> ''success''"
  obtain c o1 where c: "ensure_schema_context env orch database schema question = (c, o1)"
    by (cases "ensure_schema_context env orch database schema question")
  let ?r = "create_workflow_result ''error'' ''Failed to get schema context''
      [(''schema_context'', ContextStep c)]"
  have run: "complete_bi_workflow env orch question user_context database schema = (?r, o1)"
    using assms c fail by (simp add: complete_bi_workflow_def)
  have "llm_calls (the_sql_agent o1) = llm_calls (the_sql_agent orch)"
    and "db_calls o1 = db_calls orch"
    using ensure_schema_context_calls [of env orch database schema question] c by simp_all
  then show "\<exists>r orch'.
             complete_bi_workflow env orch question user_context database schema = (r, orch')
           \<and> wf_status r = ''error'' \<and> wf_message r = ''Failed to get schema context''
           \<and> map fst (workflow_log r) = [''schema_context'']
           \<and> llm_calls (the_sql_agent orch') = llm_calls (the_sql_agent orch)
           \<and> db_calls orch' = db_calls orch"
    using run by (intro exI [of _ ?r] exI [of _ o1]) (simp add: create_workflow_result_simps)
next
  assume built: "catalog_built (the_schema_agent orch)"
  obtain c o1 where c: "ensure_schema_context env orch database schema question = (c, o1)"
    by (cases "ensure_schema_context env orch database schema question")
  have ok: "cr_status c = ''success''" and ne: "cr_context c \<noteq> []"
    using ensure_built_context_success [OF built assms, of env database schema] c by simp_all
  have a1: "the_sql_agent o1 = the_sql_agent orch"
    using ensure_schema_context_calls(2) [of env orch database schema question] c by simp
  let ?full = "if user_context \<noteq> []
             then cr_context c @ [CHR 0x0A, CHR 0x0A] @ ''ADDITIONAL CONTEXT:'' @ [CHR 0x0A]
                  @ user_context
             else cr_context c"
  have fne: "?full \<noteq> []" using ne by simp
  obtain sr o2 where g: "generate_sql_with_retries env o1 question (cr_context c) user_context
        = (sr, o2)"
    by (cases "generate_sql_with_retries env o1 question (cr_context c) user_context")
  obtain sr' a where w: "complete_sql_workflow env (the_sql_agent o1) question ?full
      (auto_optimize o1) = (sr', a)"
    by (cases "complete_sql_workflow env (the_sql_agent o1) question ?full (auto_optimize o1)")
  have "llm_calls a = llm_calls (the_sql_agent o1) @ [(question, ?full)]"
    using complete_sql_workflow_calls [OF assms fne, of env "the_sql_agent o1" "auto_optimize o1"]
      w by simp
  moreover have "the_sql_agent o2 = a"
    using g w by (auto simp: generate_sql_with_retries_def Let_def)
  ultimately have a2: "llm_calls (the_sql_agent o2)
      = llm_calls (the_sql_agent orch) @ [(question, ?full)]"
    using a1 by simp
  let ?l2 = "[(''schema_context'', ContextStep c)] @ [(''sql_generation'', SqlStep sr)]"
  let ?sql = "case sw_final_sql sr of None \<Rightarrow> [] | Some q \<Rightarrow> q"
  obtain r orch' where run: "complete_bi_workflow env orch question user_context database schema
      = (r, orch')"
    by (cases "complete_bi_workflow env orch question user_context database schema")
  have "\<exists>rest. llm_calls (the_sql_agent orch') = llm_calls (the_sql_agent o2) @ rest"
  proof (cases "sw_status sr = ''success''")
    case False
    then have "complete_bi_workflow env orch question user_context database schema
        = (create_workflow_result ''error'' ''Failed to generate SQL'' ?l2, o2)"
      using assms c ok g by (simp add: complete_bi_workflow_def)
    then have "orch' = o2" using run by simp
    then show ?thesis by simp
  next
    case True
    then have "complete_bi_workflow env orch question user_context database schema
        = execute_with_repair env o2 question (cr_context c) user_context ?sql ?l2"
      using assms c ok g by (simp add: complete_bi_workflow_def)
    then have "orch' = snd (execute_with_repair env o2 question (cr_context c) user_context
        ?sql ?l2)"
      using run by (metis snd_conv)
    then show ?thesis
      using execute_with_repair_calls [of env o2 question "cr_context c" user_context ?sql ?l2]
      by simp
  qed
  then obtain rest where "llm_calls (the_sql_agent orch')
      = llm_calls (the_sql_agent orch) @ (question, ?full) # rest"
    using a2 by auto
  then show "\<exists>r orch' context rest.
             complete_bi_workflow env orch question user_context database schema = (r, orch')
           \<and> cr_status (fst (ensure_schema_context env orch database schema question))
               = ''success''
           \<and> llm_calls (the_sql_agent orch')
               = llm_calls (the_sql_agent orch) @ (question, context) # rest"
    using run ok c by auto
qed

theorem C4_context_failure_stops_before_synthesis_witness:
  "cr_status (fst (ensure_schema_context no_discovery_env new_orchestrator ''DB'' ''PUBLIC''
                     ''total sales'')) \<noteq> ''success''
   \<and> (\<exists>r orch'.
         complete_bi_workflow no_discovery_env new_orchestrator ''total sales'' [] ''DB'' ''PUBLIC''
           = (r, orch')
       \<and> wf_status r = ''error'' \<and> wf_message r = ''Failed to get schema context''
       \<and> map fst (workflow_log r) = [''schema_context'']
       \<and> llm_calls (the_sql_agent orch') = llm_calls (the_sql_agent new_orchestrator)
       \<and> db_calls orch' = db_calls new_orchestrator)"
proof -
  have q: "''total sales'' \<noteq> []" by simp
  have f: "cr_status (fst (ensure_schema_context no_discovery_env new_orchestrator ''DB''
      ''PUBLIC'' ''total sales'')) \<noteq> ''success''"
    by code_simp
  show ?thesis
    by (intro conjI f
        C4_context_failure_stops_before_synthesis [OF q, THEN conjunct1, THEN mp, OF f])
qed

text \<open>
  Claim C4 as stated fails. With a catalog that has not been built and a database that
  has no tables, the build succeeds and leaves the catalog empty; schema-context
  resolution succeeds, and the run goes on to SQL synthesis and calls the language-model
  service twice (synthesis and repair).
\<close>

theorem C4_empty_catalog_reaches_synthesis:
  "\<not> catalog_built (the_schema_agent new_orchestrator)
   \<and> tables (catalog (the_schema_agent new_orchestrator)) = []
   \<and> discover failing_env ''DB'' ''PUBLIC'' = Inr []
   \<and> tables (catalog (the_schema_agent (snd (complete_bi_workflow failing_env new_orchestrator
        ''total sales'' [] ''DB'' ''PUBLIC'')))) = []
   \<and> cr_status (fst (ensure_schema_context failing_env new_orchestrator ''DB'' ''PUBLIC''
        ''total sales'')) = ''success''
   \<and> map fst (workflow_log (fst (complete_bi_workflow failing_env new_orchestrator
        ''total sales'' [] ''DB'' ''PUBLIC'')))
      = [''schema_context'', ''sql_generation'', ''sql_execution'', ''sql_fix_attempt'',
         ''sql_execution_retry'']
   \<and> length (llm_calls (the_sql_agent (snd (complete_bi_workflow failing_env new_orchestrator
        ''total sales'' [] ''DB'' ''PUBLIC'')))) = 2"
  by code_simp

end
